theory Spec2Isabelle
  imports Complex_Main "HOL-Library.AList"
begin

section \<open>Data model\<close>

text \<open>
  Python floats are modelled as exact reals: the arithmetic of the source is kept
  operation by operation, its binary rounding is not. Python's \<open>int\<close> is \<open>int\<close>.
  A call that raises is the \<open>Inl\<close> branch of a sum.
\<close>

datatype exn = ConnectionError | ExchangeError | KeyError | TypeError | ValueError | ZeroDivisionError

text \<open>\<open>models/position.py\<close>, class \<open>Position\<close>. Of \<open>raw_data\<close> the two keys the
  services read are kept: \<open>is_placeholder_for_close\<close> (absent reads as false) and
  \<open>closed_amount\<close>.\<close>

record position =
  symbol :: string
  side :: string
  contracts :: real
  entry_price :: real
  mark_price :: real
  leverage :: int
  unrealized_pnl :: real
  timestamp_ms :: "int option"
  is_placeholder_for_close :: bool
  closed_amount :: "real option"

text \<open>The \<open>limits\<close> dictionary of a market: \<open>limits['cost']['min']\<close> and
  \<open>limits['amount']['min']\<close>, each possibly missing or null.\<close>

record limits =
  cost_min :: "real option"
  amount_min :: "real option"

text \<open>A ticker dictionary: the keys \<open>last\<close> and \<open>markPrice\<close>.\<close>

record ticker =
  last :: "real option"
  markPrice :: "real option"

text \<open>
  \<open>models/order.py\<close>, class \<open>Order\<close>. The fields are prefixed with \<open>o_\<close> because
  \<open>symbol\<close>, \<open>side\<close> and \<open>timestamp_ms\<close> are fields of \<open>position\<close> already. Of
  \<open>raw_data\<close> the keys the replication engine reads are kept: \<open>info.reduceOnly\<close>,
  \<open>params.reduceOnly\<close> (absent reads as false) and \<open>command_details.leverage\<close>
  (\<open>None\<close> when the key is absent). The formatted log and error strings are values of
  \<open>message\<close>, which keeps the arguments of the f-string instead of its text.
\<close>

datatype message =
    LeverageNotSet string int
  | AmountNotAdjustable string real
  | NoPositionToClose string
  | NoPositionToScale string
  | InvalidScaleOutAmount real
  | ScaleOutNotAdjustable string
  | ExchangeMessage string

record order =
  o_id :: "string option"
  o_symbol :: string
  o_side :: string
  o_amount :: real
  o_price :: "real option"
  o_status :: string
  o_order_type :: "string option"
  o_filled :: real
  o_average_price :: "real option"
  o_exchange_id :: "string option"
  o_timestamp_ms :: "int option"
  o_error_message :: "message option"
  o_info_reduceOnly :: bool
  o_params_reduceOnly :: bool
  o_command_leverage :: "int option"

text \<open>The \<open>params\<close> dictionary handed to \<open>place_order\<close>: the keys the services write.\<close>

record params =
  p_reduceOnly :: "bool option"
  p_post_only :: "bool option"
  p_command_leverage :: "int option"

definition empty_params :: params where
  "empty_params = \<lparr>p_reduceOnly = None, p_post_only = None, p_command_leverage = None\<rparr>"

text \<open>The keyword arguments of one \<open>place_order\<close> call. The amount is optional because the
  replication engine passes on whatever \<open>normalize_amount\<close> returned.\<close>

record order_request =
  req_symbol :: string
  req_order_type :: string
  req_side :: string
  req_amount :: "real option"
  req_price :: "real option"
  req_params :: params

text \<open>
  \<open>interfaces/exchange_adapter_interface.py\<close>: the methods the services await, as
  functions of their arguments. \<open>get_market_info\<close> returns the limits or a falsy value
  (\<open>None\<close>); \<open>normalize_amount\<close> and \<open>get_total_account_value_usdt\<close> return a number
  or \<open>None\<close>.
\<close>

record adapter =
  exchange_id :: string
  get_market_info :: "string \<Rightarrow> exn + limits option"
  get_ticker :: "string \<Rightarrow> exn + ticker"
  normalize_amount :: "string \<Rightarrow> real \<Rightarrow> exn + real option"
  set_leverage :: "string \<Rightarrow> int \<Rightarrow> string \<Rightarrow> exn + bool"
  place_order :: "order_request \<Rightarrow> exn + order"
  get_positions :: "string list option \<Rightarrow> exn + position list"
  get_total_account_value_usdt :: "exn + real option"

text \<open>A command dictionary; a key that is absent is \<open>None\<close>.\<close>

record command =
  c_action :: string
  c_symbol :: "string option"
  c_amount :: "real option"
  c_percentage :: "real option"
  c_leverage :: "int option"
  c_margin_mode :: "string option"
  c_order_type :: "string option"
  c_price :: "real option"
  c_post_only :: "bool option"
  c_params :: "params option"

text \<open>Python truthiness of an optional number: \<open>None\<close> and \<open>0\<close> are false.\<close>

definition truthy :: "real option \<Rightarrow> bool" where
  "truthy v = (case v of None \<Rightarrow> False | Some x \<Rightarrow> x \<noteq> 0)"

text \<open>Python \<open>int(x)\<close> on a float truncates toward zero.\<close>

definition py_int :: "real \<Rightarrow> int" where
  "py_int x = (if 0 \<le> x then \<lfloor>x\<rfloor> else \<lceil>x\<rceil>)"

section \<open>Symbol canonicalization (\<open>utils/helpers.py\<close>)\<close>

text \<open>
  Strings are lists of 8-bit characters. \<open>str.upper\<close>, \<open>str.lower\<close> and the whitespace
  of \<open>str.strip\<close> are Python's on ASCII input: the letters a-z and A-Z, and the
  characters 9-13, 28-31 and 32.
\<close>

definition is_space :: "char \<Rightarrow> bool" where
  "is_space c = (let n = (of_char c :: nat) in (9 \<le> n \<and> n \<le> 13) \<or> (28 \<le> n \<and> n \<le> 32))"

definition upper_char :: "char \<Rightarrow> char" where
  "upper_char c = (let n = (of_char c :: nat) in if 97 \<le> n \<and> n \<le> 122 then char_of (n - 32) else c)"

definition lower_char :: "char \<Rightarrow> char" where
  "lower_char c = (let n = (of_char c :: nat) in if 65 \<le> n \<and> n \<le> 90 then char_of (n + 32) else c)"

definition upper :: "string \<Rightarrow> string" where
  "upper s = map upper_char s"

definition lower :: "string \<Rightarrow> string" where
  "lower s = map lower_char s"

definition strip :: "string \<Rightarrow> string" where
  "strip s = rev (dropWhile is_space (rev (dropWhile is_space s)))"

text \<open>\<open>s.rstrip('-')\<close> and \<open>s.split(':')[0]\<close>.\<close>

definition rstrip_dash :: "string \<Rightarrow> string" where
  "rstrip_dash s = rev (dropWhile (\<lambda>c. c = CHR ''-'') (rev s))"

definition split_colon_head :: "string \<Rightarrow> string" where
  "split_colon_head s = takeWhile (\<lambda>c. c \<noteq> CHR '':'') s"

definition endswith :: "string \<Rightarrow> string \<Rightarrow> bool" where
  "endswith s q = (length q \<le> length s \<and> drop (length s - length q) s = q)"

definition quote_currencies :: "string list" where
  "quote_currencies =
    [''USDT'', ''USDC'', ''BUSD'', ''FDUSD'', ''TUSD'', ''DAI'', ''TRY'', ''BTC'', ''ETH'']"

text \<open>The \<open>for quote in quote_currencies\<close> loop: the first quote that is a proper suffix
  decides.\<close>

fun try_quotes :: "string \<Rightarrow> string list \<Rightarrow> string option" where
  "try_quotes upper_symbol [] = None"
| "try_quotes upper_symbol (quote # rest) =
    (if endswith upper_symbol quote \<and> length upper_symbol - length quote > 0
     then Some (rstrip_dash (take (length upper_symbol - length quote) upper_symbol) @ ''/'' @ quote)
     else try_quotes upper_symbol rest)"

definition format_symbol_for_ccxt :: "string \<Rightarrow> string" where
  "format_symbol_for_ccxt symbol0 =
    (if symbol0 = [] then []
     else
      (let symb = rstrip_dash (strip (split_colon_head symbol0)) in
       if CHR ''/'' \<in> set symb then upper symb
       else
        (let upper_symbol = upper symb in
         case try_quotes upper_symbol quote_currencies of
           Some r \<Rightarrow> r
         | None \<Rightarrow> (if upper_symbol \<noteq> [] then upper_symbol @ ''/USDT'' else []))))"

section \<open>The sizing calculator (\<open>utils/calculator.py\<close>)\<close>

definition FOLLOWER_MAX_LEVERAGE :: int where
  "FOLLOWER_MAX_LEVERAGE = 50"

definition FOLLOWER_BUDGET_USAGE_PERCENT :: real where
  "FOLLOWER_BUDGET_USAGE_PERCENT = 0.90"

text \<open>Line 54: \<open>float(ticker.get('last') or leader_position.mark_price)\<close>.\<close>

definition calc_price_of :: "ticker \<Rightarrow> position \<Rightarrow> real" where
  "calc_price_of tk lp = (if truthy (last tk) then the (last tk) else mark_price lp)"

text \<open>Lines 62-73, for a non-zero intended leverage (zero raises at line 63).\<close>

definition proportional_amount :: "position \<Rightarrow> real \<Rightarrow> real \<Rightarrow> int \<Rightarrow> real \<Rightarrow> real" where
  "proportional_amount lp follower_total_value leader_total_value lev calc_price =
    (let leader_position_notional = contracts lp * entry_price lp;
         leader_margin_used = leader_position_notional / real_of_int lev;
         leader_margin_ratio =
           (if leader_total_value > 0 then leader_margin_used / leader_total_value else 0);
         proportional_follower_margin = follower_total_value * leader_margin_ratio;
         proportional_follower_notional = proportional_follower_margin * real_of_int lev
     in if calc_price > 0 then proportional_follower_notional / calc_price else 0)"

text \<open>Lines 78-87: the lift to the exchange minimums.\<close>

definition lift_min_amount :: "real option \<Rightarrow> real \<Rightarrow> real" where
  "lift_min_amount min_amount a =
    (if truthy min_amount \<and> a < the min_amount then the min_amount else a)"

definition amount_for_min_cost :: "real option \<Rightarrow> real \<Rightarrow> real" where
  "amount_for_min_cost min_cost calc_price =
    (if truthy min_cost \<and> calc_price > 0 then (the min_cost / calc_price) * 1.05 else 0)"

definition lift_min_cost :: "real option \<Rightarrow> real \<Rightarrow> real \<Rightarrow> real" where
  "lift_min_cost min_cost calc_price a =
    (if truthy min_cost \<and> a * calc_price < the min_cost
     then amount_for_min_cost min_cost calc_price else a)"

definition effective_amount :: "limits \<Rightarrow> real \<Rightarrow> real \<Rightarrow> real" where
  "effective_amount mi calc_price a0 =
    lift_min_cost (cost_min mi) calc_price (lift_min_amount (amount_min mi) a0)"

text \<open>Lines 93-132: the leverage that is kept, or \<open>None\<close> where the function returns
  \<open>None\<close>. \<open>lev\<close> is non-zero here.\<close>

definition choose_leverage :: "real \<Rightarrow> real \<Rightarrow> int \<Rightarrow> int option" where
  "choose_leverage position_notional_value follower_safety_budget lev =
    (let effective_leverage = \<bar>lev\<bar>;
         required_margin = position_notional_value / real_of_int effective_leverage;
         elevated =
           (if required_margin > follower_safety_budget then
              (if follower_safety_budget > 0 then
                 (let min_leverage_needed = position_notional_value / follower_safety_budget
                  in if min_leverage_needed > real_of_int FOLLOWER_MAX_LEVERAGE then None
                     else Some \<bar>min FOLLOWER_MAX_LEVERAGE (py_int min_leverage_needed + 2)\<bar>)
               else None)
            else Some effective_leverage)
     in case elevated of
          None \<Rightarrow> None
        | Some l \<Rightarrow>
            (if l = 0 then None
             else if position_notional_value / real_of_int l > follower_safety_budget then None
             else Some l))"

text \<open>The whole function; the result is the pair (amount, leverage) of the returned
  dictionary. Every exception is caught at line 142 and gives \<open>None\<close>.\<close>

definition calculate_follower_amount ::
  "adapter \<Rightarrow> position \<Rightarrow> real \<Rightarrow> real \<Rightarrow> int \<Rightarrow> (real \<times> int) option" where
  "calculate_follower_amount ad lp follower_total_value leader_total_value lev =
    (if leader_total_value \<le> 1 \<or> follower_total_value \<le> 1 then None
     else case get_market_info ad (symbol lp) of
       Inl _ \<Rightarrow> None
     | Inr None \<Rightarrow> None
     | Inr (Some mi) \<Rightarrow>
       (case get_ticker ad (symbol lp) of
          Inl _ \<Rightarrow> None
        | Inr tk \<Rightarrow>
          (let calc_price = calc_price_of tk lp in
           if calc_price \<le> 0 then None
           else if lev = 0 then None
           else
            (let a = effective_amount mi calc_price
                       (proportional_amount lp follower_total_value leader_total_value lev calc_price);
                 position_notional_value = a * calc_price;
                 follower_safety_budget = follower_total_value * FOLLOWER_BUDGET_USAGE_PERCENT
             in case choose_leverage position_notional_value follower_safety_budget lev of
                  None \<Rightarrow> None
                | Some l \<Rightarrow>
                   (case normalize_amount ad (symbol lp) a of
                      Inl _ \<Rightarrow> None
                    | Inr None \<Rightarrow> None
                    | Inr (Some final_amount) \<Rightarrow>
                        if final_amount \<le> 0 then None else Some (final_amount, \<bar>l\<bar>))))))"

text \<open>
  \<open>adjust_amount_for_limits\<close>, lines 146-207. The price is
  \<open>float(ticker.get('last') or ticker.get('markPrice'))\<close>, which raises when both are
  missing; the margin on the minimum cost is 1.01 here.
\<close>

definition adjust_amount_for_limits :: "adapter \<Rightarrow> string \<Rightarrow> real \<Rightarrow> real option" where
  "adjust_amount_for_limits ad symb amount =
    (case get_market_info ad symb of
       Inl _ \<Rightarrow> None
     | Inr None \<Rightarrow> None
     | Inr (Some mi) \<Rightarrow>
       (case get_ticker ad symb of
          Inl _ \<Rightarrow> None
        | Inr tk \<Rightarrow>
          (case (if truthy (last tk) then last tk else markPrice tk) of
             None \<Rightarrow> None
           | Some calc_price \<Rightarrow>
              if calc_price \<le> 0 then None
              else
               (let a1 = lift_min_amount (amount_min mi) amount;
                    a2 = (if truthy (cost_min mi) \<and> a1 * calc_price < the (cost_min mi)
                          then (the (cost_min mi) / calc_price) * 1.01 else a1)
                in case normalize_amount ad symb a2 of
                     Inl _ \<Rightarrow> None
                   | Inr None \<Rightarrow> None
                   | Inr (Some final_amount) \<Rightarrow> Some final_amount))))"

section \<open>The command dispatcher (\<open>services/command_executor.py\<close>)\<close>

text \<open>
  A handler returns the calls it made, in order, and its result: an order, or the
  exception that leaves the handler. The calls recorded are those the function itself
  makes: the adapter's methods and the two functions of \<open>utils/calculator.py\<close>.
\<close>

datatype call =
    SetLeverage string int string
  | AdjustAmountForLimits string real
  | PlaceOrder order_request
  | GetPositions "string list option"
  | GetTotalAccountValueUsdt
  | NormalizeAmount string real
  | CalculateFollowerAmount string real real int

text \<open>\<open>Order(id=None, symbol=.., side=.., amount=.., status='failed', error_message=msg,
  exchange_id=adapter.exchange_id)\<close>: the constructor lowers side and status, and the
  other fields take their defaults.\<close>

definition failed_order :: "adapter \<Rightarrow> string \<Rightarrow> string \<Rightarrow> real \<Rightarrow> message \<Rightarrow> order" where
  "failed_order ad symb sd amt msg =
    \<lparr>o_id = None, o_symbol = symb, o_side = lower sd, o_amount = amt, o_price = None,
     o_status = lower ''failed'', o_order_type = Some (lower ''market''), o_filled = 0,
     o_average_price = None, o_exchange_id = Some (exchange_id ad), o_timestamp_ms = None,
     o_error_message = Some msg, o_info_reduceOnly = False, o_params_reduceOnly = False,
     o_command_leverage = None\<rparr>"

text \<open>Lines 118-124 (and 206-212): the \<open>params\<close> of the command with \<open>post_only\<close> set
  when the command asks for it.\<close>

definition command_params :: "command \<Rightarrow> params" where
  "command_params c =
    (let ps = (case c_params c of None \<Rightarrow> empty_params | Some q \<Rightarrow> q) in
     if (case c_post_only c of None \<Rightarrow> False | Some b \<Rightarrow> b) then ps\<lparr>p_post_only := Some True\<rparr>
     else if c_order_type c = Some ''post_only'' then ps\<lparr>p_post_only := Some True\<rparr>
     else ps)"

text \<open>\<open>_handle_open_position\<close>, lines 110-151.\<close>

definition handle_open_position :: "adapter \<Rightarrow> command \<Rightarrow> call list \<times> (exn + order)" where
  "handle_open_position ad c =
    (case c_symbol c of
       None \<Rightarrow> ([], Inl KeyError)
     | Some symb \<Rightarrow>
      (case c_amount c of
         None \<Rightarrow> ([], Inl KeyError)
       | Some original_amount \<Rightarrow>
        (case c_leverage c of
           None \<Rightarrow> ([], Inl KeyError)
         | Some lev \<Rightarrow>
          (let margin_mode = (case c_margin_mode c of None \<Rightarrow> ''isolated'' | Some m \<Rightarrow> m);
               ps = command_params c;
               c1 = SetLeverage symb lev margin_mode
           in case set_leverage ad symb lev margin_mode of
                Inl e \<Rightarrow> ([c1], Inl e)
              | Inr leverage_set_success \<Rightarrow>
                 if \<not> leverage_set_success
                 then ([c1], Inr (failed_order ad symb (c_action c) original_amount
                                    (LeverageNotSet symb lev)))
                 else
                  (let c2 = AdjustAmountForLimits symb original_amount in
                   case adjust_amount_for_limits ad symb original_amount of
                     None \<Rightarrow> ([c1, c2], Inr (failed_order ad symb (c_action c) original_amount
                                               (AmountNotAdjustable symb original_amount)))
                   | Some final_amount \<Rightarrow>
                      (let req = \<lparr>req_symbol = symb,
                                  req_order_type = (case c_order_type c of None \<Rightarrow> ''market'' | Some t \<Rightarrow> t),
                                  req_side = c_action c,
                                  req_amount = Some final_amount,
                                  req_price = c_price c,
                                  req_params = ps\<rparr>
                       in ([c1, c2, PlaceOrder req], place_order ad req)))))))"

text \<open>\<open>next((p for p in positions if p.symbol == symbol_ccxt), None)\<close>.\<close>

definition find_position :: "position list \<Rightarrow> string \<Rightarrow> position option" where
  "find_position ps symb = List.find (\<lambda>p. symbol p = symb) ps"

text \<open>Lines 187-191 of \<open>_handle_scale_out\<close>: the amount to close.\<close>

definition original_amount_to_close :: "command \<Rightarrow> position \<Rightarrow> real" where
  "original_amount_to_close c target_pos =
    (case c_amount c of
       Some a \<Rightarrow> a
     | None \<Rightarrow>
        (case c_percentage c of
           Some pct \<Rightarrow> contracts target_pos * (pct / 100)
         | None \<Rightarrow> 0))"

text \<open>\<open>_handle_scale_out\<close>, lines 176-221.\<close>

definition handle_scale_out :: "adapter \<Rightarrow> command \<Rightarrow> call list \<times> (exn + order)" where
  "handle_scale_out ad c =
    (case c_symbol c of
       None \<Rightarrow> ([], Inl KeyError)
     | Some symb \<Rightarrow>
      (let symbol_ccxt = format_symbol_for_ccxt symb;
           c1 = GetPositions (Some [symbol_ccxt])
       in case get_positions ad (Some [symbol_ccxt]) of
            Inl e \<Rightarrow> ([c1], Inl e)
          | Inr positions \<Rightarrow>
            (case find_position positions symbol_ccxt of
               None \<Rightarrow> ([c1], Inr (failed_order ad symbol_ccxt ''unknown'' 0
                                      (NoPositionToScale symbol_ccxt)))
             | Some target_pos \<Rightarrow>
               (let amt = original_amount_to_close c target_pos in
                if amt \<le> 0
                then ([c1], Inr (failed_order ad symbol_ccxt ''unknown'' 0 (InvalidScaleOutAmount amt)))
                else
                 (let c2 = AdjustAmountForLimits symbol_ccxt amt in
                  case adjust_amount_for_limits ad symbol_ccxt amt of
                    None \<Rightarrow> ([c1, c2], Inr (failed_order ad symbol_ccxt ''unknown'' amt
                                              (ScaleOutNotAdjustable symbol_ccxt)))
                  | Some final_amount_to_close \<Rightarrow>
                     if final_amount_to_close > contracts target_pos
                     then ([c1, c2], Inr (failed_order ad symbol_ccxt ''unknown'' amt
                                            (ScaleOutNotAdjustable symbol_ccxt)))
                     else
                      (let req = \<lparr>req_symbol = symbol_ccxt,
                                  req_order_type = (case c_order_type c of None \<Rightarrow> ''market'' | Some t \<Rightarrow> t),
                                  req_side = (if side target_pos = ''long'' then ''sell'' else ''buy''),
                                  req_amount = Some final_amount_to_close,
                                  req_price = c_price c,
                                  req_params = (command_params c)\<lparr>p_reduceOnly := Some True\<rparr>\<rparr>
                       in ([c1, c2, PlaceOrder req], place_order ad req)))))))"

section \<open>The replication engine (\<open>services/replication_service.py\<close>)\<close>

text \<open>A follower descriptor (the \<open>api_info\<close> dictionary) and the outcome for one follower:
  the \<open>status\<close> of the returned dictionary with its \<open>reason\<close>, or \<open>order_id\<close> and
  \<open>amount\<close>.\<close>

record api_info =
  user_id :: string
  api_exchange_id :: string

datatype reason =
    AdapterNotCreated
  | AccountValueTooLow
  | NoPositionToReduce
  | LeaderOriginalSizeZero
  | AmountCalculationFailed
  | InvalidAmount real
  | OrderError "message option"
  | GeneralError exn

datatype follower_result =
    Failed string reason
  | Skipped string reason
  | Succeeded string "string option" real

definition is_reduce_only :: "order \<Rightarrow> bool" where
  "is_reduce_only leader_order = (o_info_reduceOnly leader_order \<or> o_params_reduceOnly leader_order)"

text \<open>\<open>{p.symbol: p for p in positions}\<close>: a later position replaces an earlier one of
  the same symbol and keeps its place in the iteration order.\<close>

definition positions_by_symbol :: "position list \<Rightarrow> (string \<times> position) list" where
  "positions_by_symbol ps = fold (\<lambda>p d. AList.update (symbol p) p d) ps []"

text \<open>Lines 58-68: the placeholder position of a full close. The constructor lowers the
  side; \<open>average_price or 0\<close> is 0 for a missing price.\<close>

definition close_placeholder :: "string \<Rightarrow> order \<Rightarrow> position" where
  "close_placeholder leader_symbol_clean leader_order =
    \<lparr>symbol = leader_symbol_clean,
     side = lower (if o_side leader_order = ''sell'' then ''long'' else ''short''),
     contracts = 0,
     entry_price = (case o_average_price leader_order of None \<Rightarrow> 0 | Some v \<Rightarrow> v),
     mark_price = (case o_average_price leader_order of None \<Rightarrow> 0 | Some v \<Rightarrow> v),
     leverage = 1,
     unrealized_pnl = 0,
     timestamp_ms = None,
     is_placeholder_for_close = True,
     closed_amount = Some (o_filled leader_order)\<rparr>"

text \<open>Lines 47-71: the leader snapshot handed to every follower, or the symbol of the
  error return.\<close>

definition leader_pos_to_replicate :: "position list \<Rightarrow> order \<Rightarrow> string + position" where
  "leader_pos_to_replicate leader_position_list leader_order =
    (let leader_symbol_clean = format_symbol_for_ccxt (o_symbol leader_order) in
     case map_of (positions_by_symbol leader_position_list) leader_symbol_clean of
       Some p \<Rightarrow> Inr p
     | None \<Rightarrow>
        if is_reduce_only leader_order then Inr (close_placeholder leader_symbol_clean leader_order)
        else Inl leader_symbol_clean)"

text \<open>Lines 143-154: the amount to close on the follower.\<close>

definition reduce_amount :: "position \<Rightarrow> order \<Rightarrow> position \<Rightarrow> reason + real" where
  "reduce_amount leader_position leader_order follower_pos =
    (if is_placeholder_for_close leader_position then Inr (contracts follower_pos)
     else
      (let original_leader_contracts = contracts leader_position + o_filled leader_order in
       if original_leader_contracts < 1 / 10 ^ 9 then Inl LeaderOriginalSizeZero
       else
        (let percentage_to_close = o_filled leader_order / original_leader_contracts
         in Inr (contracts follower_pos * percentage_to_close))))"

text \<open>Lines 181-201: the amount check, the second normalization and the market order.\<close>

definition submit_follower_order ::
  "adapter \<Rightarrow> string \<Rightarrow> order \<Rightarrow> string \<Rightarrow> params \<Rightarrow> real \<Rightarrow> call list \<times> follower_result" where
  "submit_follower_order fa uid leader_order order_side follower_params follower_amount =
    (if follower_amount \<le> 0 then ([], Skipped uid (InvalidAmount follower_amount))
     else
      (let c1 = NormalizeAmount (o_symbol leader_order) follower_amount in
       case normalize_amount fa (o_symbol leader_order) follower_amount of
         Inl e \<Rightarrow> ([c1], Failed uid (GeneralError e))
       | Inr final_follower_amount \<Rightarrow>
          (let req = \<lparr>req_symbol = o_symbol leader_order, req_order_type = ''market'',
                      req_side = order_side, req_amount = final_follower_amount,
                      req_price = None, req_params = follower_params\<rparr>
           in case place_order fa req of
                Inl e \<Rightarrow> ([c1, PlaceOrder req], Failed uid (GeneralError e))
              | Inr follower_order \<Rightarrow>
                 if o_status follower_order = ''failed''
                 then ([c1, PlaceOrder req], Failed uid (OrderError (o_error_message follower_order)))
                 else ([c1, PlaceOrder req],
                       Succeeded uid (o_id follower_order) (o_filled follower_order)))))"

text \<open>\<open>_replicate_for_single_follower\<close>, lines 97-205. \<open>get_adapter\<close> is the connection
  registry's lookup.\<close>

definition replicate_for_single_follower ::
  "(api_info \<Rightarrow> adapter option) \<Rightarrow> api_info \<Rightarrow> order \<Rightarrow> position \<Rightarrow> real
     \<Rightarrow> call list \<times> follower_result" where
  "replicate_for_single_follower get_adapter follower_api_info leader_order leader_position
       leader_total_value =
    (let uid = user_id follower_api_info in
     case get_adapter follower_api_info of
       None \<Rightarrow> ([], Failed uid AdapterNotCreated)
     | Some fa \<Rightarrow>
      (let c1 = GetTotalAccountValueUsdt in
       case get_total_account_value_usdt fa of
         Inl e \<Rightarrow> ([c1], Failed uid (GeneralError e))
       | Inr follower_total_value \<Rightarrow>
          if \<not> truthy follower_total_value \<or> the follower_total_value \<le> 1
          then ([c1], Skipped uid AccountValueTooLow)
          else
           (let leader_intended_leverage =
                  (case o_command_leverage leader_order of
                     None \<Rightarrow> leverage leader_position | Some l \<Rightarrow> l)
            in
            if is_reduce_only leader_order then
             (let follower_params = empty_params\<lparr>p_reduceOnly := Some True\<rparr>;
                  order_side = (if side leader_position = ''long'' then ''sell'' else ''buy'');
                  c2 = GetPositions None
              in case get_positions fa None of
                   Inl e \<Rightarrow> ([c1, c2], Failed uid (GeneralError e))
                 | Inr follower_position_list \<Rightarrow>
                   (case map_of (positions_by_symbol follower_position_list) (symbol leader_position) of
                      None \<Rightarrow> ([c1, c2], Skipped uid NoPositionToReduce)
                    | Some follower_pos \<Rightarrow>
                      (case reduce_amount leader_position leader_order follower_pos of
                         Inl r \<Rightarrow> ([c1, c2], Failed uid r)
                       | Inr follower_amount \<Rightarrow>
                          (let (cs, res) = submit_follower_order fa uid leader_order order_side
                                             follower_params follower_amount
                           in ([c1, c2] @ cs, res)))))
            else
             (let c2 = CalculateFollowerAmount (symbol leader_position) (the follower_total_value)
                         leader_total_value leader_intended_leverage
              in case calculate_follower_amount fa leader_position (the follower_total_value)
                        leader_total_value leader_intended_leverage of
                   None \<Rightarrow> ([c1, c2], Skipped uid AmountCalculationFailed)
                 | Some (follower_amount, follower_leverage) \<Rightarrow>
                   (let c3 = SetLeverage (symbol leader_position) follower_leverage ''isolated'' in
                    case set_leverage fa (symbol leader_position) follower_leverage ''isolated'' of
                      Inl e \<Rightarrow> ([c1, c2, c3], Failed uid (GeneralError e))
                    | Inr _ \<Rightarrow>
                       (let (cs, res) = submit_follower_order fa uid leader_order
                                          (o_side leader_order) empty_params follower_amount
                        in ([c1, c2, c3] @ cs, res)))))))"

text \<open>\<open>replicate_action\<close>, lines 21-95. \<open>loaded\<close> is what \<open>load_api_keys_from_file\<close>
  returned. The followers run concurrently, so each keeps its own list of calls.\<close>

datatype replication_summary =
    NoFollowers
  | ReplicationError string
  | Completed "(call list \<times> follower_result) list"

definition replicate_action ::
  "api_info list \<Rightarrow> (api_info \<Rightarrow> adapter option) \<Rightarrow> api_info \<Rightarrow> order
     \<Rightarrow> exn + replication_summary" where
  "replicate_action loaded get_adapter leader_api_info leader_order =
    (let followers = filter (\<lambda>f. user_id f \<noteq> user_id leader_api_info) loaded in
     if followers = [] then Inr NoFollowers
     else case get_adapter leader_api_info of
       None \<Rightarrow> Inr (ReplicationError ''leader adapter'')
     | Some leader_adapter \<Rightarrow>
       (case get_total_account_value_usdt leader_adapter of
          Inl e \<Rightarrow> Inl e
        | Inr leader_total_value \<Rightarrow>
           if \<not> truthy leader_total_value \<or> the leader_total_value \<le> 1
           then Inr (ReplicationError ''leader account value'')
           else
            (case get_positions leader_adapter None of
               Inl e \<Rightarrow> Inl e
             | Inr leader_position_list \<Rightarrow>
               (case leader_pos_to_replicate leader_position_list leader_order of
                  Inl s \<Rightarrow> Inr (ReplicationError s)
                | Inr leader_position \<Rightarrow>
                   Inr (Completed (map (\<lambda>f. replicate_for_single_follower get_adapter f leader_order
                                             leader_position (the leader_total_value))
                                      followers))))))"

definition count_successful :: "(call list \<times> follower_result) list \<Rightarrow> nat" where
  "count_successful results =
    length (filter (\<lambda>r. case snd r of Succeeded _ _ _ \<Rightarrow> True | _ \<Rightarrow> False) results)"

definition count_failed :: "(call list \<times> follower_result) list \<Rightarrow> nat" where
  "count_failed results =
    length (filter (\<lambda>r. case snd r of Failed _ _ \<Rightarrow> True | _ \<Rightarrow> False) results)"

definition count_skipped :: "(call list \<times> follower_result) list \<Rightarrow> nat" where
  "count_skipped results =
    length (filter (\<lambda>r. case snd r of Skipped _ _ \<Rightarrow> True | _ \<Rightarrow> False) results)"

section \<open>The reconciliation loop (\<open>services/sync_service.py\<close>)\<close>

definition LATE_JOIN_MAX_PRICE_CHANGE_PERCENT :: real where
  "LATE_JOIN_MAX_PRICE_CHANGE_PERCENT = 0.75"

definition LATE_JOIN_MAX_AGE_MINUTES :: real where
  "LATE_JOIN_MAX_AGE_MINUTES = 30"

text \<open>
  \<open>_should_late_join\<close>, lines 159-181. \<open>now_ms\<close> is the clock reading
  \<open>datetime.now(timezone.utc).timestamp() * 1000\<close>. \<open>float(None)\<close> and the division by
  a zero entry price raise, and the handler returns \<open>False\<close>.
\<close>

definition should_late_join :: "real \<Rightarrow> position \<Rightarrow> adapter \<Rightarrow> bool" where
  "should_late_join now_ms leader_pos follower_adapter =
    (case get_ticker follower_adapter (symbol leader_pos) of
       Inl _ \<Rightarrow> False
     | Inr tk \<Rightarrow>
       (case last tk of
          None \<Rightarrow> False
        | Some current_price \<Rightarrow>
           if entry_price leader_pos = 0 then False
           else
            (let price_change = \<bar>(current_price - entry_price leader_pos) / entry_price leader_pos\<bar> in
             if price_change > LATE_JOIN_MAX_PRICE_CHANGE_PERCENT / 100 then False
             else
              (case timestamp_ms leader_pos of
                 None \<Rightarrow> True
               | Some ts \<Rightarrow>
                  if ts = 0 then True
                  else
                   (let pos_age_seconds = (now_ms - real_of_int ts) / 1000 in
                    if pos_age_seconds > LATE_JOIN_MAX_AGE_MINUTES * 60 then False else True)))))"



section \<open>Example accounts\<close>

text \<open>An exchange that truncates amounts to three decimals, accepts every order and
  answers every query with fixed data.\<close>

definition trunc3 :: "real \<Rightarrow> real" where
  "trunc3 a = real_of_int \<lfloor>a * 1000\<rfloor> / 1000"

definition accepted_order :: "order_request \<Rightarrow> order" where
  "accepted_order req =
    \<lparr>o_id = Some ''1'', o_symbol = req_symbol req, o_side = lower (req_side req),
     o_amount = (case req_amount req of None \<Rightarrow> 0 | Some a \<Rightarrow> a), o_price = req_price req,
     o_status = ''closed'', o_order_type = Some (req_order_type req),
     o_filled = (case req_amount req of None \<Rightarrow> 0 | Some a \<Rightarrow> a),
     o_average_price = None, o_exchange_id = Some ''binance'', o_timestamp_ms = Some 0,
     o_error_message = None, o_info_reduceOnly = False, o_params_reduceOnly = False,
     o_command_leverage = None\<rparr>"

definition demo_adapter :: "limits \<Rightarrow> real \<Rightarrow> position list \<Rightarrow> real \<Rightarrow> bool \<Rightarrow> adapter" where
  "demo_adapter mi p ps equity leverage_ok =
    \<lparr>exchange_id = ''binance'',
     get_market_info = (\<lambda>_. Inr (Some mi)),
     get_ticker = (\<lambda>_. Inr \<lparr>last = Some p, markPrice = None\<rparr>),
     normalize_amount = (\<lambda>_ a. Inr (Some (trunc3 a))),
     set_leverage = (\<lambda>_ _ _. Inr leverage_ok),
     place_order = (\<lambda>req. Inr (accepted_order req)),
     get_positions = (\<lambda>_. Inr ps),
     get_total_account_value_usdt = Inr (Some equity)\<rparr>"

definition demo_position :: "string \<Rightarrow> string \<Rightarrow> real \<Rightarrow> real \<Rightarrow> int \<Rightarrow> position" where
  "demo_position symb sd c e l =
    \<lparr>symbol = symb, side = sd, contracts = c, entry_price = e, mark_price = e, leverage = l,
     unrealized_pnl = 0, timestamp_ms = Some 0, is_placeholder_for_close = False,
     closed_amount = None\<rparr>"

text \<open>Scenario 3 of the specification (second variant): a leader with 5000 USDT opens 200
  USDT of notional at 2x, the follower has 20 USDT and the market has \<open>cost.min = 50\<close>.\<close>

definition elevation_adapter :: adapter where
  "elevation_adapter = demo_adapter \<lparr>cost_min = Some 50, amount_min = None\<rparr> 1 [] 20 True"

definition elevation_position :: position where
  "elevation_position = demo_position ''X/USDT'' ''long'' 200 1 2"

text \<open>A leader with 10000 USDT holds 1 BTC opened at 30000 with an intended leverage of
  100; the follower has 1000 USDT and the market has no minimums.\<close>

definition high_leverage_adapter :: adapter where
  "high_leverage_adapter = demo_adapter \<lparr>cost_min = None, amount_min = None\<rparr> 30000 [] 1000 True"

definition high_leverage_position :: position where
  "high_leverage_position = demo_position ''BTC/USDT'' ''long'' 1 30000 100"

text \<open>A buy command for 0.5 BTC at 5x, and an exchange that refuses to set the leverage.\<close>

definition open_command :: command where
  "open_command =
    \<lparr>c_action = ''buy'', c_symbol = Some ''BTC/USDT'', c_amount = Some (1 / 2),
     c_percentage = None, c_leverage = Some 5, c_margin_mode = None, c_order_type = None,
     c_price = None, c_post_only = None, c_params = None\<rparr>"

definition refusing_adapter :: adapter where
  "refusing_adapter = demo_adapter \<lparr>cost_min = Some 5, amount_min = Some (1 / 1000)\<rparr> 30000 [] 1000 False"

text \<open>A leader holding 4 BTC long, and a scale-out command that carries both an amount
  of 1 and a percentage of 50.\<close>

definition scale_out_position :: position where
  "scale_out_position = demo_position ''BTC/USDT'' ''long'' 4 30000 5"

definition scale_out_adapter :: adapter where
  "scale_out_adapter =
     demo_adapter \<lparr>cost_min = Some 5, amount_min = Some (1 / 1000)\<rparr> 30000 [scale_out_position] 10000 True"

definition scale_out_command :: command where
  "scale_out_command =
    \<lparr>c_action = ''scale_out'', c_symbol = Some ''BTC/USDT'', c_amount = Some 1,
     c_percentage = Some 50, c_leverage = None, c_margin_mode = None, c_order_type = None,
     c_price = None, c_post_only = None, c_params = None\<rparr>"

text \<open>One follower with 1000 USDT, known to the registry under the user id
  \<open>follower\<close>.\<close>

definition follower_info :: api_info where
  "follower_info = \<lparr>user_id = ''follower'', api_exchange_id = ''binance''\<rparr>"

definition registry :: "adapter \<Rightarrow> api_info \<Rightarrow> adapter option" where
  "registry fa f = (if user_id f = ''follower'' then Some fa else None)"

definition btc_limits :: limits where
  "btc_limits = \<lparr>cost_min = Some 5, amount_min = Some (1 / 1000)\<rparr>"

definition long_follower_position :: position where
  "long_follower_position = demo_position ''BTC/USDT'' ''long'' (2 / 5) 30000 5"

definition long_follower_adapter :: adapter where
  "long_follower_adapter = demo_adapter btc_limits 30000 [long_follower_position] 1000 True"



text \<open>A filled reduce-only market sell of the leader on BTC/USDT.\<close>

definition reduce_order :: "real \<Rightarrow> order" where
  "reduce_order filled =
    \<lparr>o_id = Some ''42'', o_symbol = ''BTC/USDT'', o_side = ''sell'', o_amount = filled,
     o_price = None, o_status = ''closed'', o_order_type = Some ''market'', o_filled = filled,
     o_average_price = Some 30000, o_exchange_id = Some ''binance'', o_timestamp_ms = Some 0,
     o_error_message = None, o_info_reduceOnly = True, o_params_reduceOnly = False,
     o_command_leverage = None\<rparr>"

text \<open>Scenario 5 of the specification: the leader had 4 BTC long and still holds 3 after
  selling 1.\<close>

definition leader_after_partial :: position where
  "leader_after_partial = demo_position ''BTC/USDT'' ''long'' 3 30000 5"



text \<open>A leader position opened at 30000 at time 1000 ms, and an exchange whose last price
  is 30000.\<close>

definition late_join_position :: position where
  "late_join_position = (demo_position ''BTC/USDT'' ''long'' 1 30000 5)\<lparr>timestamp_ms := Some 1000\<rparr>"

definition late_join_adapter :: adapter where
  "late_join_adapter = demo_adapter btc_limits 30000 [] 1000 True"

section \<open>Properties of the sizing calculator\<close>

lemmas calculator_defs =
  calculate_follower_amount_def demo_adapter_def demo_position_def calc_price_of_def
  truthy_def proportional_amount_def effective_amount_def lift_min_amount_def lift_min_cost_def
  amount_for_min_cost_def py_int_def choose_leverage_def FOLLOWER_BUDGET_USAGE_PERCENT_def
  FOLLOWER_MAX_LEVERAGE_def trunc3_def Let_def


lemma py_int_nonneg: "0 \<le> x \<Longrightarrow> py_int x = \<lfloor>x\<rfloor>"
  by (simp add: py_int_def)

text \<open>Whatever leverage the gate of lines 126-132 lets through is at least 1 and keeps
  the margin of the unnormalized amount within the budget.\<close>

lemma choose_leverage_sound:
  assumes "choose_leverage n b lev = Some l"
  shows "1 \<le> l \<and> n / real_of_int l \<le> b"
  using assms
  by (auto simp: choose_leverage_def Let_def split: if_splits option.splits)

lemma calculate_follower_amount_SomeD:
  assumes "calculate_follower_amount ad lp E_f E_l lev = Some (amount, l)"
  obtains mi tk a l0 where
    "get_market_info ad (symbol lp) = Inr (Some mi)"
    "get_ticker ad (symbol lp) = Inr tk"
    "0 < calc_price_of tk lp" "lev \<noteq> 0" "1 < E_f" "1 < E_l"
    "a = effective_amount mi (calc_price_of tk lp)
           (proportional_amount lp E_f E_l lev (calc_price_of tk lp))"
    "choose_leverage (a * calc_price_of tk lp) (E_f * FOLLOWER_BUDGET_USAGE_PERCENT) lev = Some l0"
    "l = \<bar>l0\<bar>"
    "normalize_amount ad (symbol lp) a = Inr (Some amount)" "0 < amount"
  using assms
  by (auto simp: calculate_follower_amount_def Let_def split: if_splits option.splits sum.splits)

text \<open>The leverage of a successful result is never below 1.\<close>

lemma calculate_follower_amount_leverage_ge_1:
  assumes "calculate_follower_amount ad lp E_f E_l lev = Some (amount, l)"
  shows "1 \<le> l"
proof -
  from assms obtain a l0 where
    ch: "choose_leverage (a * calc_price_of (projr (get_ticker ad (symbol lp))) lp)
           (E_f * FOLLOWER_BUDGET_USAGE_PERCENT) lev = Some l0"
    and l: "l = \<bar>l0\<bar>"
    by (rule calculate_follower_amount_SomeD) simp
  from choose_leverage_sound[OF ch] l show ?thesis by simp
qed




text \<open>
  C2 (leverage bound), evaluated where it fails. On the path without elevation the
  leader's intended leverage is returned as it is: with an intended leverage of 100 and a
  margin within the budget the result carries leverage 100, above
  \<open>FOLLOWER_MAX_LEVERAGE\<close>.
\<close>

theorem leverage_above_maximum:
  "calculate_follower_amount high_leverage_adapter high_leverage_position 1000 10000 100
     = Some (1 / 10, 100)
   \<and> FOLLOWER_MAX_LEVERAGE < 100"
  by (simp add: high_leverage_adapter_def high_leverage_position_def calculator_defs)

text \<open>On the elevation path the leverage chosen is within the maximum.\<close>

lemma choose_leverage_elevated:
  assumes B: "0 < B" and lev: "lev \<noteq> 0" and over: "n / real_of_int \<bar>lev\<bar> > B"
  shows "choose_leverage n B lev =
           (if n / B > 50 then None else Some (min 50 (\<lfloor>n / B\<rfloor> + 2)))"
proof -
  from lev have lpos: "0 < real_of_int \<bar>lev\<bar>" by simp
  from over B have "0 < n / real_of_int \<bar>lev\<bar>" by linarith
  with lpos have npos: "0 < n" by (simp add: zero_less_divide_iff)
  with B have qpos: "0 < n / B" by simp
  then have fl: "py_int (n / B) = \<lfloor>n / B\<rfloor>" by (simp add: py_int_nonneg)
  have fl0: "0 \<le> \<lfloor>n / B\<rfloor>" using qpos by simp
  show ?thesis
  proof (cases "n / B > 50")
    case True
    then show ?thesis using over B
      by (simp add: choose_leverage_def Let_def FOLLOWER_MAX_LEVERAGE_def)
  next
    case False
    define l where "l = min 50 (\<lfloor>n / B\<rfloor> + 2)"
    have l2: "2 \<le> l" using fl0 by (simp add: l_def)
    have gate: "n / real_of_int l \<le> B"
    proof (cases "\<lfloor>n / B\<rfloor> + 2 \<le> 50")
      case True
      then have "l = \<lfloor>n / B\<rfloor> + 2" by (simp add: l_def)
      moreover have "n / B \<le> real_of_int (\<lfloor>n / B\<rfloor> + 2)" by linarith
      ultimately have "n / B \<le> real_of_int l" by simp
      then have "n \<le> real_of_int l * B" using B by (simp add: pos_divide_le_eq)
      then show ?thesis using l2 by (simp add: pos_divide_le_eq mult.commute)
    next
      case F2: False
      then have "l = 50" by (simp add: l_def)
      moreover from False have "n / B \<le> 50" by simp
      then have "n \<le> 50 * B" using B by (simp add: pos_divide_le_eq)
      ultimately show ?thesis by (simp add: pos_divide_le_eq mult.commute)
    qed
    have abs_l: "\<bar>l\<bar> = l" using l2 by simp
    have "choose_leverage n B lev = Some l"
      using over B False gate l2 abs_l
      by (simp add: choose_leverage_def Let_def FOLLOWER_MAX_LEVERAGE_def fl l_def[symmetric])
    then show ?thesis using False by (simp add: l_def)
  qed
qed

text \<open>
  C3 (constraint lift and leverage elevation). With \<open>a0\<close> the proportional amount, an
  \<open>a0\<close> below \<open>amount.min\<close> is raised to \<open>amount.min\<close>, and an amount whose notional is
  below \<open>cost.min\<close> becomes \<open>(cost.min / price) * 1.05\<close>. When the margin at the
  leader's intended leverage exceeds the budget \<open>B = 0.90 * follower_total_value\<close>, the
  function returns \<open>None\<close> if \<open>L_min = amount * price / B\<close> is above 50; otherwise the
  gate of lines 126-132 passes and the function returns the normalized amount with the
  leverage \<open>min(50, floor(L_min) + 2)\<close>, or \<open>None\<close> when normalization gives no
  positive amount. The hypotheses say that control reaches line 77: both account values
  above 1, market limits and ticker read, a positive price, a non-zero leverage.
\<close>

theorem constraint_lift_and_elevation:
  fixes ad :: adapter and lp :: position and E_f E_l :: real and lev :: int
    and mi :: limits and tk :: ticker
  defines "p \<equiv> calc_price_of tk lp"
  defines "a0 \<equiv> proportional_amount lp E_f E_l lev p"
  defines "a1 \<equiv> lift_min_amount (amount_min mi) a0"
  defines "a \<equiv> effective_amount mi p a0"
  defines "B \<equiv> 0.90 * E_f"
  defines "L_min \<equiv> (a * p) / B"
  assumes E_l: "1 < E_l" and E_f: "1 < E_f"
    and mi: "get_market_info ad (symbol lp) = Inr (Some mi)"
    and tk: "get_ticker ad (symbol lp) = Inr tk"
    and p: "0 < p" and lev: "lev \<noteq> 0"
  shows "(truthy (amount_min mi) \<and> a0 < the (amount_min mi) \<longrightarrow> a1 = the (amount_min mi))
       \<and> (truthy (cost_min mi) \<and> a1 * p < the (cost_min mi)
            \<longrightarrow> a = (the (cost_min mi) / p) * 1.05)
       \<and> (a * p / real_of_int \<bar>lev\<bar> > B \<longrightarrow>
            (L_min > 50 \<longrightarrow> calculate_follower_amount ad lp E_f E_l lev = None)
          \<and> (L_min \<le> 50 \<longrightarrow> calculate_follower_amount ad lp E_f E_l lev =
               (case normalize_amount ad (symbol lp) a of
                  Inr (Some final_amount) \<Rightarrow>
                    if final_amount \<le> 0 then None
                    else Some (final_amount, min 50 (\<lfloor>L_min\<rfloor> + 2))
                | _ \<Rightarrow> None)))"
proof (intro conjI impI)
  assume "truthy (amount_min mi) \<and> a0 < the (amount_min mi)"
  then show "a1 = the (amount_min mi)" by (simp add: a1_def lift_min_amount_def)
next
  assume "truthy (cost_min mi) \<and> a1 * p < the (cost_min mi)"
  then show "a = (the (cost_min mi) / p) * 1.05"
    using p by (simp add: a_def a1_def effective_amount_def lift_min_cost_def amount_for_min_cost_def)
next
  have Bpos: "0 < B" using E_f by (simp add: B_def)
  have Beq: "E_f * FOLLOWER_BUDGET_USAGE_PERCENT = B"
    by (simp add: B_def FOLLOWER_BUDGET_USAGE_PERCENT_def)
  have unfold: "calculate_follower_amount ad lp E_f E_l lev =
      (case choose_leverage (a * p) B lev of
         None \<Rightarrow> None
       | Some l \<Rightarrow>
          (case normalize_amount ad (symbol lp) a of
             Inl _ \<Rightarrow> None
           | Inr None \<Rightarrow> None
           | Inr (Some final_amount) \<Rightarrow>
               if final_amount \<le> 0 then None else Some (final_amount, \<bar>l\<bar>)))"
    using E_l E_f mi tk p lev
    by (simp add: calculate_follower_amount_def Let_def p_def[symmetric] a0_def[symmetric]
        a_def[symmetric] Beq)
  {
    assume over: "a * p / real_of_int \<bar>lev\<bar> > B" and big: "L_min > 50"
    have "choose_leverage (a * p) B lev = None"
      using choose_leverage_elevated[OF Bpos lev over] big by (simp add: L_min_def)
    then show "calculate_follower_amount ad lp E_f E_l lev = None"
      by (simp add: unfold)
  }
  {
    assume over: "a * p / real_of_int \<bar>lev\<bar> > B" and small: "L_min \<le> 50"
    have Lpos: "0 \<le> \<lfloor>L_min\<rfloor>"
    proof -
      from lev have "0 < real_of_int \<bar>lev\<bar>" by simp
      moreover from over Bpos have "0 < a * p / real_of_int \<bar>lev\<bar>" by linarith
      ultimately have "0 < a * p" by (simp add: zero_less_divide_iff)
      then have "0 < L_min" using Bpos by (simp add: L_min_def)
      then show ?thesis by simp
    qed
    have ch: "choose_leverage (a * p) B lev = Some (min 50 (\<lfloor>L_min\<rfloor> + 2))"
      using choose_leverage_elevated[OF Bpos lev over] small by (simp add: L_min_def)
    have ab: "\<bar>min 50 (\<lfloor>L_min\<rfloor> + 2)\<bar> = min 50 (\<lfloor>L_min\<rfloor> + 2)"
      using Lpos by simp
    show "calculate_follower_amount ad lp E_f E_l lev =
               (case normalize_amount ad (symbol lp) a of
                  Inr (Some final_amount) \<Rightarrow>
                    if final_amount \<le> 0 then None
                    else Some (final_amount, min 50 (\<lfloor>L_min\<rfloor> + 2))
                | _ \<Rightarrow> None)"
      unfolding unfold ch using ab by (simp split: sum.splits option.splits)
  }
qed

theorem constraint_lift_and_elevation_witness:
  "(1::real) < 5000 \<and> (1::real) < 20
   \<and> get_market_info elevation_adapter (symbol elevation_position)
        = Inr (Some \<lparr>cost_min = Some 50, amount_min = None\<rparr>)
   \<and> get_ticker elevation_adapter (symbol elevation_position)
        = Inr \<lparr>last = Some 1, markPrice = None\<rparr>
   \<and> 0 < calc_price_of \<lparr>last = Some 1, markPrice = None\<rparr> elevation_position
   \<and> (2::int) \<noteq> 0
   \<and> proportional_amount elevation_position 20 5000 2 1 = 4 / 5
   \<and> effective_amount \<lparr>cost_min = Some 50, amount_min = None\<rparr> 1 (4 / 5) = 105 / 2
   \<and> (105 / 2) * 1 / real_of_int \<bar>2\<bar> > 0.90 * (20::real)
   \<and> (105 / 2) * 1 / (0.90 * 20) \<le> (50::real)
   \<and> calculate_follower_amount elevation_adapter elevation_position 20 5000 2
        = Some (105 / 2, min 50 (\<lfloor>(105 / 2) * 1 / (0.90 * 20 :: real)\<rfloor> + 2))"
proof -
  have m: "get_market_info elevation_adapter (symbol elevation_position)
        = Inr (Some \<lparr>cost_min = Some 50, amount_min = None\<rparr>)"
    by (simp add: elevation_adapter_def demo_adapter_def)
  have t: "get_ticker elevation_adapter (symbol elevation_position)
        = Inr \<lparr>last = Some 1, markPrice = None\<rparr>"
    by (simp add: elevation_adapter_def demo_adapter_def)
  have p: "calc_price_of \<lparr>last = Some 1, markPrice = None\<rparr> elevation_position = 1"
    by (simp add: calc_price_of_def truthy_def)
  have a0: "proportional_amount elevation_position 20 5000 2 1 = 4 / 5"
    by (simp add: proportional_amount_def elevation_position_def demo_position_def)
  have a: "effective_amount \<lparr>cost_min = Some 50, amount_min = None\<rparr> 1 (4 / 5) = 105 / 2"
    by (simp add: effective_amount_def lift_min_amount_def lift_min_cost_def
        amount_for_min_cost_def truthy_def)
  have n: "normalize_amount elevation_adapter (symbol elevation_position) (105 / 2)
             = Inr (Some (105 / 2))"
    by (simp add: elevation_adapter_def demo_adapter_def trunc3_def)
  have th: "calculate_follower_amount elevation_adapter elevation_position 20 5000 2
        = Some (105 / 2, min 50 (\<lfloor>(105 / 2) * 1 / (0.90 * 20 :: real)\<rfloor> + 2))"
    using constraint_lift_and_elevation[of 5000 20 elevation_adapter elevation_position
        "\<lparr>cost_min = Some 50, amount_min = None\<rparr>" "\<lparr>last = Some 1, markPrice = None\<rparr>" 2]
    by (simp add: m t p a0 a n)
  show ?thesis using m t th by (simp add: p a0 a)
qed

section \<open>Properties of the command dispatcher\<close>

lemma lower_failed: "lower ''failed'' = ''failed''"
  by (simp add: lower_def lower_char_def)

lemma failed_order_shape:
  "o_status (failed_order ad symb sd amt msg) = ''failed''
   \<and> o_id (failed_order ad symb sd amt msg) = None
   \<and> o_error_message (failed_order ad symb sd amt msg) = Some msg"
  by (simp add: failed_order_def lower_failed)

text \<open>
  C8 (open handler). For a buy or sell command that carries symbol, amount and leverage,
  the first call of \<open>_handle_open_position\<close> is \<open>set_leverage\<close>. When it returns
  false the handler makes no other call and returns an order with status \<open>failed\<close>, no
  id and an error message; the same holds, after the call of
  \<open>adjust_amount_for_limits\<close>, when that returns \<open>None\<close>. \<open>place_order\<close> is called
  only after both have succeeded, as the third and last call, with the adjusted amount.
\<close>

theorem open_position_preconditions:
  fixes ad :: adapter and c :: command
  defines "mode \<equiv> (case c_margin_mode c of None \<Rightarrow> ''isolated'' | Some m \<Rightarrow> m)"
  assumes s: "c_symbol c = Some symb" and a: "c_amount c = Some amt" and l: "c_leverage c = Some lev"
  shows "(\<exists>cs. fst (handle_open_position ad c) = SetLeverage symb lev mode # cs)
       \<and> (set_leverage ad symb lev mode = Inr False \<longrightarrow>
            (\<exists>fo. handle_open_position ad c = ([SetLeverage symb lev mode], Inr fo)
                  \<and> o_status fo = ''failed'' \<and> o_id fo = None \<and> o_error_message fo \<noteq> None))
       \<and> (set_leverage ad symb lev mode = Inr True \<and> adjust_amount_for_limits ad symb amt = None \<longrightarrow>
            (\<exists>fo. handle_open_position ad c =
                    ([SetLeverage symb lev mode, AdjustAmountForLimits symb amt], Inr fo)
                  \<and> o_status fo = ''failed'' \<and> o_id fo = None \<and> o_error_message fo \<noteq> None))
       \<and> (\<forall>req. PlaceOrder req \<in> set (fst (handle_open_position ad c)) \<longrightarrow>
            set_leverage ad symb lev mode = Inr True
          \<and> adjust_amount_for_limits ad symb amt = Some (the (req_amount req))
          \<and> fst (handle_open_position ad c) =
              [SetLeverage symb lev mode, AdjustAmountForLimits symb amt, PlaceOrder req]
          \<and> snd (handle_open_position ad c) = place_order ad req)"
  using s a l
  by (auto simp: handle_open_position_def mode_def Let_def failed_order_shape
           split: sum.splits option.splits bool.splits)

theorem open_position_preconditions_witness:
  "c_symbol open_command = Some ''BTC/USDT'' \<and> c_amount open_command = Some (1 / 2)
   \<and> c_leverage open_command = Some 5
   \<and> set_leverage refusing_adapter ''BTC/USDT'' 5 ''isolated'' = Inr False
   \<and> fst (handle_open_position refusing_adapter open_command)
        = [SetLeverage ''BTC/USDT'' 5 ''isolated'']
   \<and> (\<exists>fo. snd (handle_open_position refusing_adapter open_command) = Inr fo
           \<and> o_status fo = ''failed'' \<and> o_id fo = None \<and> o_error_message fo \<noteq> None)"
proof -
  have s: "c_symbol open_command = Some ''BTC/USDT''"
    and a: "c_amount open_command = Some (1 / 2)"
    and l: "c_leverage open_command = Some 5"
    and m: "c_margin_mode open_command = None"
    by (simp_all add: open_command_def)
  have r: "set_leverage refusing_adapter ''BTC/USDT'' 5 ''isolated'' = Inr False"
    by (simp add: refusing_adapter_def demo_adapter_def)
  from open_position_preconditions[OF s a l, of refusing_adapter] r s a l m
  show ?thesis by auto
qed

lemma original_amount_to_close_ignores_percentage:
  "c_amount c = Some a \<Longrightarrow> original_amount_to_close (c\<lparr>c_percentage := pct\<rparr>) = original_amount_to_close c"
  by (rule ext) (simp add: original_amount_to_close_def)

lemma command_params_ignores_percentage:
  "command_params (c\<lparr>c_percentage := pct\<rparr>) = command_params c"
  by (simp add: command_params_def Let_def)

text \<open>
  C10 (scale-out amount). When a scale-out command has the key \<open>amount\<close>, the amount to
  close is that amount and the handler's calls and result do not depend on
  \<open>percentage\<close>; \<open>percentage * contracts / 100\<close> is the amount to close only when
  \<open>amount\<close> is absent.
\<close>

theorem scale_out_amount_precedence:
  "(c_amount c = Some a \<longrightarrow>
      original_amount_to_close c pos = a
    \<and> handle_scale_out ad (c\<lparr>c_percentage := pct\<rparr>) = handle_scale_out ad c)
   \<and> (c_amount c = None \<and> c_percentage c = Some q \<longrightarrow>
      original_amount_to_close c pos = q * contracts pos / 100)"
proof (intro conjI impI)
  assume a: "c_amount c = Some a"
  show "original_amount_to_close c pos = a"
    using a by (simp add: original_amount_to_close_def)
  show "handle_scale_out ad (c\<lparr>c_percentage := pct\<rparr>) = handle_scale_out ad c"
    unfolding handle_scale_out_def
    by (simp add: original_amount_to_close_ignores_percentage[OF a]
        command_params_ignores_percentage Let_def
        split: option.split sum.split)
next
  assume "c_amount c = None \<and> c_percentage c = Some q"
  then show "original_amount_to_close c pos = q * contracts pos / 100"
    by (simp add: original_amount_to_close_def)
qed

theorem scale_out_amount_precedence_witness:
  "c_amount scale_out_command = Some 1
   \<and> original_amount_to_close scale_out_command scale_out_position = 1
   \<and> handle_scale_out scale_out_adapter (scale_out_command\<lparr>c_percentage := None\<rparr>)
        = handle_scale_out scale_out_adapter scale_out_command
   \<and> c_amount (scale_out_command\<lparr>c_amount := None\<rparr>) = None
   \<and> c_percentage (scale_out_command\<lparr>c_amount := None\<rparr>) = Some 50
   \<and> original_amount_to_close (scale_out_command\<lparr>c_amount := None\<rparr>) scale_out_position = 2"
proof -
  have a: "c_amount scale_out_command = Some 1"
    by (simp add: scale_out_command_def)
  have b: "c_amount (scale_out_command\<lparr>c_amount := None\<rparr>) = None
           \<and> c_percentage (scale_out_command\<lparr>c_amount := None\<rparr>) = Some 50"
    by (simp add: scale_out_command_def)
  have c: "contracts scale_out_position = 4"
    by (simp add: scale_out_position_def demo_position_def)
  from scale_out_amount_precedence[where c = scale_out_command and a = 1
         and pos = scale_out_position and pct = None and ad = scale_out_adapter and q = 0]
       scale_out_amount_precedence[where c = "scale_out_command\<lparr>c_amount := None\<rparr>"
         and a = 0 and pos = scale_out_position and pct = None and ad = scale_out_adapter
         and q = 50]
       a b c
  show ?thesis by simp
qed

section \<open>Properties of the replication engine\<close>

lemmas fixture_defs =
  follower_info_def registry_def btc_limits_def long_follower_position_def
  long_follower_adapter_def reduce_order_def leader_after_partial_def
  demo_adapter_def demo_position_def accepted_order_def trunc3_def


lemma format_btc: "format_symbol_for_ccxt ''BTC/USDT'' = ''BTC/USDT''"
  by code_simp




lemma late_eval: "should_late_join 1801000 late_join_position late_join_adapter"
  by (simp add: late_join_position_def late_join_adapter_def fixture_defs should_late_join_def LATE_JOIN_MAX_PRICE_CHANGE_PERCENT_def
      LATE_JOIN_MAX_AGE_MINUTES_def Let_def)

lemma lower_long: "lower ''long'' = ''long''"
  by (simp add: lower_def lower_char_def)

lemma lower_short: "lower ''short'' = ''short''"
  by (simp add: lower_def lower_char_def)

lemma replicate_reduce_only:
  assumes "get_adapter f = Some fa"
    and "get_total_account_value_usdt fa = Inr (Some v)" and "1 < v"
    and "is_reduce_only lo"
    and "get_positions fa None = Inr ps"
    and "map_of (positions_by_symbol ps) (symbol lp) = Some fpos"
  shows "replicate_for_single_follower get_adapter f lo lp ltv =
    (case reduce_amount lp lo fpos of
       Inl r \<Rightarrow> ([GetTotalAccountValueUsdt, GetPositions None], Failed (user_id f) r)
     | Inr amt \<Rightarrow>
        ([GetTotalAccountValueUsdt, GetPositions None]
           @ fst (submit_follower_order fa (user_id f) lo
                   (if side lp = ''long'' then ''sell'' else ''buy'')
                   (empty_params\<lparr>p_reduceOnly := Some True\<rparr>) amt),
         snd (submit_follower_order fa (user_id f) lo
                   (if side lp = ''long'' then ''sell'' else ''buy'')
                   (empty_params\<lparr>p_reduceOnly := Some True\<rparr>) amt)))"
  using assms
  by (simp add: replicate_for_single_follower_def Let_def truthy_def split_beta
           split: sum.split)

lemma submit_follower_order_calls:
  "fst (submit_follower_order fa uid lo sd ps amt) =
    (if amt \<le> 0 then []
     else case normalize_amount fa (o_symbol lo) amt of
            Inl e \<Rightarrow> [NormalizeAmount (o_symbol lo) amt]
          | Inr final \<Rightarrow>
              [NormalizeAmount (o_symbol lo) amt,
               PlaceOrder \<lparr>req_symbol = o_symbol lo, req_order_type = ''market'', req_side = sd,
                           req_amount = final, req_price = None, req_params = ps\<rparr>])"
  by (simp add: submit_follower_order_def Let_def split: sum.split)


text \<open>
  C4 (full close through the placeholder). When the leader has no position for the
  canonical symbol of the order and the order is reduce-only, \<open>replicate_action\<close> hands
  on a placeholder position with 0 contracts, the side opposite to the order's (long for a
  sell, short otherwise), \<open>is_placeholder_for_close\<close> set and \<open>closed_amount\<close> the
  filled amount. For that placeholder the amount to close is the follower position's
  contracts, and a follower that is reached (adapter resolved, account value above 1,
  a position with positive contracts in the symbol) normalizes exactly that amount and
  places it as a reduce-only market order.
\<close>

theorem full_close_via_placeholder:
  fixes leader_position_list :: "position list" and lo :: order
  defines "ph \<equiv> close_placeholder (format_symbol_for_ccxt (o_symbol lo)) lo"
  assumes no_pos: "map_of (positions_by_symbol leader_position_list)
                     (format_symbol_for_ccxt (o_symbol lo)) = None"
      and ro: "is_reduce_only lo"
  shows "leader_pos_to_replicate leader_position_list lo = Inr ph
       \<and> symbol ph = format_symbol_for_ccxt (o_symbol lo)
       \<and> contracts ph = 0
       \<and> side ph = (if o_side lo = ''sell'' then ''long'' else ''short'')
       \<and> is_placeholder_for_close ph
       \<and> closed_amount ph = Some (o_filled lo)
       \<and> (\<forall>fpos. reduce_amount ph lo fpos = Inr (contracts fpos))
       \<and> (\<forall>get_adapter f fa v ps fpos ltv.
             get_adapter f = Some fa
           \<and> get_total_account_value_usdt fa = Inr (Some v) \<and> 1 < v
           \<and> get_positions fa None = Inr ps
           \<and> map_of (positions_by_symbol ps) (symbol ph) = Some fpos
           \<and> 0 < contracts fpos
           \<longrightarrow> fst (replicate_for_single_follower get_adapter f lo ph ltv) =
                 [GetTotalAccountValueUsdt, GetPositions None,
                  NormalizeAmount (o_symbol lo) (contracts fpos)]
                 @ (case normalize_amount fa (o_symbol lo) (contracts fpos) of
                      Inl e \<Rightarrow> []
                    | Inr final \<Rightarrow>
                       [PlaceOrder \<lparr>req_symbol = o_symbol lo, req_order_type = ''market'',
                          req_side = (if o_side lo = ''sell'' then ''sell'' else ''buy''),
                          req_amount = final, req_price = None,
                          req_params = empty_params\<lparr>p_reduceOnly := Some True\<rparr>\<rparr>]))"
proof -
  have lp: "leader_pos_to_replicate leader_position_list lo = Inr ph"
    using no_pos ro by (simp add: leader_pos_to_replicate_def ph_def Let_def)
  have fields: "symbol ph = format_symbol_for_ccxt (o_symbol lo)" "contracts ph = 0"
    "side ph = (if o_side lo = ''sell'' then ''long'' else ''short'')"
    "is_placeholder_for_close ph" "closed_amount ph = Some (o_filled lo)"
    by (simp_all add: ph_def close_placeholder_def lower_long lower_short)
  have ra: "\<And>fpos. reduce_amount ph lo fpos = Inr (contracts fpos)"
    using fields(4) by (simp add: reduce_amount_def)
  have side_eq: "(if side ph = ''long'' then ''sell'' else ''buy'')
                   = (if o_side lo = ''sell'' then ''sell'' else ''buy'')"
    by (simp add: fields(3))
  have per: "fst (replicate_for_single_follower get_adapter f lo ph ltv) =
                 [GetTotalAccountValueUsdt, GetPositions None,
                  NormalizeAmount (o_symbol lo) (contracts fpos)]
                 @ (case normalize_amount fa (o_symbol lo) (contracts fpos) of
                      Inl e \<Rightarrow> []
                    | Inr final \<Rightarrow>
                       [PlaceOrder \<lparr>req_symbol = o_symbol lo, req_order_type = ''market'',
                          req_side = (if o_side lo = ''sell'' then ''sell'' else ''buy''),
                          req_amount = final, req_price = None,
                          req_params = empty_params\<lparr>p_reduceOnly := Some True\<rparr>\<rparr>])"
    if h: "get_adapter f = Some fa
           \<and> get_total_account_value_usdt fa = Inr (Some v) \<and> 1 < v
           \<and> get_positions fa None = Inr ps
           \<and> map_of (positions_by_symbol ps) (symbol ph) = Some fpos
           \<and> 0 < contracts fpos"
    for get_adapter :: "api_info \<Rightarrow> adapter option" and f fa v ps fpos and ltv :: real
  proof -
    from h have "fst (replicate_for_single_follower get_adapter f lo ph ltv) =
       [GetTotalAccountValueUsdt, GetPositions None]
           @ fst (submit_follower_order fa (user_id f) lo
                   (if o_side lo = ''sell'' then ''sell'' else ''buy'')
                   (empty_params\<lparr>p_reduceOnly := Some True\<rparr>) (contracts fpos))"
      using replicate_reduce_only[of get_adapter f fa v lo ps ph fpos ltv] ro
      by (simp add: ra side_eq)
    with h show ?thesis
      by (simp add: submit_follower_order_calls split: sum.split)
  qed
  from lp fields ra per show ?thesis by blast
qed

theorem full_close_via_placeholder_witness:
  "map_of (positions_by_symbol []) (format_symbol_for_ccxt (o_symbol (reduce_order 2))) = None
   \<and> is_reduce_only (reduce_order 2)
   \<and> leader_pos_to_replicate [] (reduce_order 2)
        = Inr (close_placeholder ''BTC/USDT'' (reduce_order 2))
   \<and> side (close_placeholder ''BTC/USDT'' (reduce_order 2)) = ''long''
   \<and> contracts (close_placeholder ''BTC/USDT'' (reduce_order 2)) = 0
   \<and> closed_amount (close_placeholder ''BTC/USDT'' (reduce_order 2)) = Some 2
   \<and> reduce_amount (close_placeholder ''BTC/USDT'' (reduce_order 2)) (reduce_order 2)
        long_follower_position = Inr (2 / 5)
   \<and> fst (replicate_for_single_follower (registry long_follower_adapter) follower_info
            (reduce_order 2) (close_placeholder ''BTC/USDT'' (reduce_order 2)) 10000)
        = [GetTotalAccountValueUsdt, GetPositions None, NormalizeAmount ''BTC/USDT'' (2 / 5),
           PlaceOrder \<lparr>req_symbol = ''BTC/USDT'', req_order_type = ''market'', req_side = ''sell'',
                       req_amount = Some (2 / 5), req_price = None,
                       req_params = \<lparr>p_reduceOnly = Some True, p_post_only = None,
                                      p_command_leverage = None\<rparr>\<rparr>]"
proof -
  have sy: "format_symbol_for_ccxt (o_symbol (reduce_order 2)) = ''BTC/USDT''"
    by (simp add: reduce_order_def format_btc)
  have h1: "map_of (positions_by_symbol [])
              (format_symbol_for_ccxt (o_symbol (reduce_order 2))) = None"
    by (simp add: positions_by_symbol_def)
  have h2: "is_reduce_only (reduce_order 2)"
    by (simp add: is_reduce_only_def reduce_order_def)
  note th = full_close_via_placeholder[OF h1 h2, unfolded sy]
  have g: "registry long_follower_adapter follower_info = Some long_follower_adapter
       \<and> get_total_account_value_usdt long_follower_adapter = Inr (Some 1000) \<and> (1::real) < 1000
       \<and> get_positions long_follower_adapter None = Inr [long_follower_position]
       \<and> map_of (positions_by_symbol [long_follower_position])
            (symbol (close_placeholder ''BTC/USDT'' (reduce_order 2))) = Some long_follower_position
       \<and> 0 < contracts long_follower_position"
    by (simp add: fixture_defs positions_by_symbol_def close_placeholder_def)
  from th have per: "fst (replicate_for_single_follower (registry long_follower_adapter)
            follower_info (reduce_order 2) (close_placeholder ''BTC/USDT'' (reduce_order 2)) 10000)
        = [GetTotalAccountValueUsdt, GetPositions None,
           NormalizeAmount (o_symbol (reduce_order 2)) (contracts long_follower_position)]
          @ (case normalize_amount long_follower_adapter (o_symbol (reduce_order 2))
                    (contracts long_follower_position) of
               Inl e \<Rightarrow> []
             | Inr final \<Rightarrow>
                [PlaceOrder \<lparr>req_symbol = o_symbol (reduce_order 2), req_order_type = ''market'',
                   req_side = (if o_side (reduce_order 2) = ''sell'' then ''sell'' else ''buy''),
                   req_amount = final, req_price = None,
                   req_params = empty_params\<lparr>p_reduceOnly := Some True\<rparr>\<rparr>])"
    using g by blast
  from th have ra: "reduce_amount (close_placeholder ''BTC/USDT'' (reduce_order 2)) (reduce_order 2)
        long_follower_position = Inr (contracts long_follower_position)"
    by blast
  from th have rest: "leader_pos_to_replicate [] (reduce_order 2)
        = Inr (close_placeholder ''BTC/USDT'' (reduce_order 2))
     \<and> side (close_placeholder ''BTC/USDT'' (reduce_order 2))
         = (if o_side (reduce_order 2) = ''sell'' then ''long'' else ''short'')
     \<and> contracts (close_placeholder ''BTC/USDT'' (reduce_order 2)) = 0
     \<and> closed_amount (close_placeholder ''BTC/USDT'' (reduce_order 2))
         = Some (o_filled (reduce_order 2))"
    by blast
  have ev: "o_side (reduce_order 2) = ''sell''" "o_filled (reduce_order 2) = 2"
    "o_symbol (reduce_order 2) = ''BTC/USDT''" "contracts long_follower_position = 2 / 5"
    "normalize_amount long_follower_adapter ''BTC/USDT'' (2 / 5) = Inr (Some (2 / 5))"
    by (simp_all add: fixture_defs)
  show ?thesis
    using h1 h2 rest ra per by (simp add: ev empty_params_def)
qed



text \<open>
  C5 (partial close). When the leader still holds a position for the canonical symbol of a
  reduce-only order, that position (never the placeholder) is the snapshot handed on. A
  follower that is reached and holds a position in the symbol then either gets the result
  \<open>failed\<close>, with no order, when \<open>contracts + filled\<close> of the leader is below \<open>1e-9\<close>,
  or closes \<open>follower contracts * (filled / (leader contracts + filled))\<close>: that amount is
  what is checked, normalized and placed.
\<close>

theorem partial_close_amount:
  assumes leader: "map_of (positions_by_symbol leader_position_list)
                     (format_symbol_for_ccxt (o_symbol lo)) = Some lp"
      and np: "\<not> is_placeholder_for_close lp"
      and ro: "is_reduce_only lo"
      and ad: "get_adapter f = Some fa"
      and eq: "get_total_account_value_usdt fa = Inr (Some v)" "1 < v"
      and ps: "get_positions fa None = Inr ps"
      and fp: "map_of (positions_by_symbol ps) (symbol lp) = Some fpos"
  shows "leader_pos_to_replicate leader_position_list lo = Inr lp
       \<and> (contracts lp + o_filled lo < 1 / 10 ^ 9 \<longrightarrow>
            replicate_for_single_follower get_adapter f lo lp ltv =
              ([GetTotalAccountValueUsdt, GetPositions None],
               Failed (user_id f) LeaderOriginalSizeZero))
       \<and> (\<not> contracts lp + o_filled lo < 1 / 10 ^ 9 \<longrightarrow>
            reduce_amount lp lo fpos =
              Inr (contracts fpos * (o_filled lo / (contracts lp + o_filled lo)))
          \<and> fst (replicate_for_single_follower get_adapter f lo lp ltv) =
              [GetTotalAccountValueUsdt, GetPositions None]
              @ fst (submit_follower_order fa (user_id f) lo
                       (if side lp = ''long'' then ''sell'' else ''buy'')
                       (empty_params\<lparr>p_reduceOnly := Some True\<rparr>)
                       (contracts fpos * (o_filled lo / (contracts lp + o_filled lo))))
          \<and> snd (replicate_for_single_follower get_adapter f lo lp ltv) =
              snd (submit_follower_order fa (user_id f) lo
                       (if side lp = ''long'' then ''sell'' else ''buy'')
                       (empty_params\<lparr>p_reduceOnly := Some True\<rparr>)
                       (contracts fpos * (o_filled lo / (contracts lp + o_filled lo)))))"
proof (intro conjI impI)
  show "leader_pos_to_replicate leader_position_list lo = Inr lp"
    using leader by (simp add: leader_pos_to_replicate_def Let_def)
next
  assume "contracts lp + o_filled lo < 1 / 10 ^ 9"
  then have "reduce_amount lp lo fpos = Inl LeaderOriginalSizeZero"
    using np by (simp add: reduce_amount_def Let_def)
  then show "replicate_for_single_follower get_adapter f lo lp ltv =
              ([GetTotalAccountValueUsdt, GetPositions None],
               Failed (user_id f) LeaderOriginalSizeZero)"
    using replicate_reduce_only[of get_adapter f fa v lo ps lp fpos ltv, OF ad eq ro ps fp] by simp
next
  assume big: "\<not> contracts lp + o_filled lo < 1 / 10 ^ 9"
  then show ra: "reduce_amount lp lo fpos =
              Inr (contracts fpos * (o_filled lo / (contracts lp + o_filled lo)))"
    using np by (simp add: reduce_amount_def Let_def)
  show "fst (replicate_for_single_follower get_adapter f lo lp ltv) =
              [GetTotalAccountValueUsdt, GetPositions None]
              @ fst (submit_follower_order fa (user_id f) lo
                       (if side lp = ''long'' then ''sell'' else ''buy'')
                       (empty_params\<lparr>p_reduceOnly := Some True\<rparr>)
                       (contracts fpos * (o_filled lo / (contracts lp + o_filled lo))))"
    using replicate_reduce_only[of get_adapter f fa v lo ps lp fpos ltv, OF ad eq ro ps fp] ra by simp
  show "snd (replicate_for_single_follower get_adapter f lo lp ltv) =
              snd (submit_follower_order fa (user_id f) lo
                       (if side lp = ''long'' then ''sell'' else ''buy'')
                       (empty_params\<lparr>p_reduceOnly := Some True\<rparr>)
                       (contracts fpos * (o_filled lo / (contracts lp + o_filled lo))))"
    using replicate_reduce_only[of get_adapter f fa v lo ps lp fpos ltv, OF ad eq ro ps fp] ra by simp
qed

theorem partial_close_amount_witness:
  "map_of (positions_by_symbol [leader_after_partial])
     (format_symbol_for_ccxt (o_symbol (reduce_order 1))) = Some leader_after_partial
   \<and> \<not> is_placeholder_for_close leader_after_partial
   \<and> is_reduce_only (reduce_order 1)
   \<and> registry long_follower_adapter follower_info = Some long_follower_adapter
   \<and> get_total_account_value_usdt long_follower_adapter = Inr (Some 1000)
   \<and> get_positions long_follower_adapter None = Inr [long_follower_position]
   \<and> map_of (positions_by_symbol [long_follower_position]) (symbol leader_after_partial)
        = Some long_follower_position
   \<and> \<not> contracts leader_after_partial + o_filled (reduce_order 1) < 1 / 10 ^ 9
   \<and> leader_pos_to_replicate [leader_after_partial] (reduce_order 1) = Inr leader_after_partial
   \<and> reduce_amount leader_after_partial (reduce_order 1) long_follower_position = Inr (1 / 10)
   \<and> fst (replicate_for_single_follower (registry long_follower_adapter) follower_info
            (reduce_order 1) leader_after_partial 10000)
        = [GetTotalAccountValueUsdt, GetPositions None, NormalizeAmount ''BTC/USDT'' (1 / 10),
           PlaceOrder \<lparr>req_symbol = ''BTC/USDT'', req_order_type = ''market'', req_side = ''sell'',
                       req_amount = Some (1 / 10), req_price = None,
                       req_params = \<lparr>p_reduceOnly = Some True, p_post_only = None,
                                      p_command_leverage = None\<rparr>\<rparr>]
   \<and> leader_pos_to_replicate [leader_after_partial\<lparr>contracts := 0\<rparr>] (reduce_order 0)
        = Inr (leader_after_partial\<lparr>contracts := 0\<rparr>)
   \<and> replicate_for_single_follower (registry long_follower_adapter) follower_info
        (reduce_order 0) (leader_after_partial\<lparr>contracts := 0\<rparr>) 10000
        = ([GetTotalAccountValueUsdt, GetPositions None],
           Failed (user_id follower_info) LeaderOriginalSizeZero)"
proof -
  have sy: "format_symbol_for_ccxt (o_symbol (reduce_order x)) = ''BTC/USDT''" for x
    by (simp add: reduce_order_def format_btc)
  have l1: "map_of (positions_by_symbol [leader_after_partial])
     (format_symbol_for_ccxt (o_symbol (reduce_order 1))) = Some leader_after_partial"
    by (simp add: sy) (simp add: fixture_defs positions_by_symbol_def)
  have l0: "map_of (positions_by_symbol [leader_after_partial\<lparr>contracts := 0\<rparr>])
     (format_symbol_for_ccxt (o_symbol (reduce_order 0))) = Some (leader_after_partial\<lparr>contracts := 0\<rparr>)"
    by (simp add: sy) (simp add: fixture_defs positions_by_symbol_def)
  have np: "\<not> is_placeholder_for_close leader_after_partial"
    "\<not> is_placeholder_for_close (leader_after_partial\<lparr>contracts := 0\<rparr>)"
    by (simp_all add: fixture_defs)
  have ro: "is_reduce_only (reduce_order x)" for x
    by (simp add: is_reduce_only_def reduce_order_def)
  have ad: "registry long_follower_adapter follower_info = Some long_follower_adapter"
    by (simp add: registry_def follower_info_def)
  have eq: "get_total_account_value_usdt long_follower_adapter = Inr (Some 1000)" "(1::real) < 1000"
    by (simp_all add: fixture_defs)
  have ps: "get_positions long_follower_adapter None = Inr [long_follower_position]"
    by (simp add: fixture_defs)
  have fp: "map_of (positions_by_symbol [long_follower_position]) (symbol leader_after_partial)
        = Some long_follower_position"
    "map_of (positions_by_symbol [long_follower_position])
        (symbol (leader_after_partial\<lparr>contracts := 0\<rparr>)) = Some long_follower_position"
    by (simp_all add: fixture_defs positions_by_symbol_def)
  have big: "\<not> contracts leader_after_partial + o_filled (reduce_order 1) < 1 / 10 ^ 9"
    and small: "contracts (leader_after_partial\<lparr>contracts := 0\<rparr>) + o_filled (reduce_order 0) < 1 / 10 ^ 9"
    by (simp_all add: fixture_defs)
  note t1 = partial_close_amount[of "[leader_after_partial]" "reduce_order 1" leader_after_partial
              "registry long_follower_adapter" follower_info long_follower_adapter 1000
              "[long_follower_position]" long_follower_position 10000,
              OF l1 np(1) ro ad eq ps fp(1)]
  note t0 = partial_close_amount[of "[leader_after_partial\<lparr>contracts := 0\<rparr>]" "reduce_order 0"
              "leader_after_partial\<lparr>contracts := 0\<rparr>"
              "registry long_follower_adapter" follower_info long_follower_adapter 1000
              "[long_follower_position]" long_follower_position 10000,
              OF l0 np(2) ro ad eq ps fp(2)]
  have ev: "contracts long_follower_position * (o_filled (reduce_order 1)
              / (contracts leader_after_partial + o_filled (reduce_order 1))) = 1 / 10"
    by (simp add: fixture_defs)
  have calls: "fst (submit_follower_order long_follower_adapter (user_id follower_info)
                 (reduce_order 1) (if side leader_after_partial = ''long'' then ''sell'' else ''buy'')
                 (empty_params\<lparr>p_reduceOnly := Some True\<rparr>) (1 / 10))
        = [NormalizeAmount ''BTC/USDT'' (1 / 10),
           PlaceOrder \<lparr>req_symbol = ''BTC/USDT'', req_order_type = ''market'', req_side = ''sell'',
                       req_amount = Some (1 / 10), req_price = None,
                       req_params = \<lparr>p_reduceOnly = Some True, p_post_only = None,
                                      p_command_leverage = None\<rparr>\<rparr>]"
    by (simp add: submit_follower_order_calls fixture_defs empty_params_def)
  from t1[unfolded ev] big
  have a1: "leader_pos_to_replicate [leader_after_partial] (reduce_order 1) = Inr leader_after_partial"
    and a2: "reduce_amount leader_after_partial (reduce_order 1) long_follower_position = Inr (1 / 10)"
    and a3: "fst (replicate_for_single_follower (registry long_follower_adapter) follower_info
            (reduce_order 1) leader_after_partial 10000)
        = [GetTotalAccountValueUsdt, GetPositions None]
          @ fst (submit_follower_order long_follower_adapter (user_id follower_info)
                 (reduce_order 1) (if side leader_after_partial = ''long'' then ''sell'' else ''buy'')
                 (empty_params\<lparr>p_reduceOnly := Some True\<rparr>) (1 / 10))"
    by blast+
  from t0 small have b1: "leader_pos_to_replicate [leader_after_partial\<lparr>contracts := 0\<rparr>] (reduce_order 0)
        = Inr (leader_after_partial\<lparr>contracts := 0\<rparr>)"
    and b2: "replicate_for_single_follower (registry long_follower_adapter) follower_info
        (reduce_order 0) (leader_after_partial\<lparr>contracts := 0\<rparr>) 10000
        = ([GetTotalAccountValueUsdt, GetPositions None],
           Failed (user_id follower_info) LeaderOriginalSizeZero)"
    by blast+
  show ?thesis
    using l1 np(1) ro[of 1] ad eq(1) ps fp(1) big a1 a2 a3[unfolded calls] b1 b2
    by (intro conjI) simp_all
qed






section \<open>Properties of the reconciliation loop\<close>

text \<open>
  C7 (late-join gates), as the code has it. \<open>_should_late_join\<close> returns true only if the
  ticker was read, its \<open>last\<close> price \<open>p\<close> and the entry price \<open>e\<close> satisfy
  \<open>|p - e| / e \<le> 0.0075\<close>, and a timestamp that is set (neither null nor 0) makes the
  position at most 30 minutes old. A failed ticker read, a missing \<open>last\<close> and a zero
  entry price give false.
\<close>

theorem late_join_gates:
  "(should_late_join now_ms lp fa \<longrightarrow>
      (\<exists>tk p. get_ticker fa (symbol lp) = Inr tk \<and> last tk = Some p
         \<and> entry_price lp \<noteq> 0
         \<and> \<bar>p - entry_price lp\<bar> / entry_price lp \<le> 0.0075
         \<and> (\<forall>ts. timestamp_ms lp = Some ts \<and> ts \<noteq> 0 \<longrightarrow>
               (now_ms - real_of_int ts) / 1000 \<le> 30 * 60)))
   \<and> ((\<exists>e. get_ticker fa (symbol lp) = Inl e) \<longrightarrow> \<not> should_late_join now_ms lp fa)
   \<and> ((\<exists>tk. get_ticker fa (symbol lp) = Inr tk \<and> last tk = None)
         \<longrightarrow> \<not> should_late_join now_ms lp fa)
   \<and> (entry_price lp = 0 \<longrightarrow> \<not> should_late_join now_ms lp fa)"
proof (intro conjI impI)
  assume j: "should_late_join now_ms lp fa"
  then obtain tk p where tk: "get_ticker fa (symbol lp) = Inr tk" and p: "last tk = Some p"
    and e: "entry_price lp \<noteq> 0"
    and drift: "\<bar>(p - entry_price lp) / entry_price lp\<bar> \<le> 0.0075"
    and age: "\<forall>ts. timestamp_ms lp = Some ts \<and> ts \<noteq> 0 \<longrightarrow>
               (now_ms - real_of_int ts) / 1000 \<le> 30 * 60"
    by (auto simp: should_late_join_def Let_def LATE_JOIN_MAX_PRICE_CHANGE_PERCENT_def
          LATE_JOIN_MAX_AGE_MINUTES_def split: sum.splits option.splits if_splits)
  have "\<bar>p - entry_price lp\<bar> / entry_price lp \<le> \<bar>p - entry_price lp\<bar> / \<bar>entry_price lp\<bar>"
    using e by (cases "0 < entry_price lp") (simp_all add: divide_le_eq le_divide_eq)
  also have "\<dots> = \<bar>(p - entry_price lp) / entry_price lp\<bar>" by simp
  finally have "\<bar>p - entry_price lp\<bar> / entry_price lp \<le> 0.0075" using drift by simp
  with tk p e age show "\<exists>tk p. get_ticker fa (symbol lp) = Inr tk \<and> last tk = Some p
         \<and> entry_price lp \<noteq> 0
         \<and> \<bar>p - entry_price lp\<bar> / entry_price lp \<le> 0.0075
         \<and> (\<forall>ts. timestamp_ms lp = Some ts \<and> ts \<noteq> 0 \<longrightarrow>
               (now_ms - real_of_int ts) / 1000 \<le> 30 * 60)"
    by blast
next
  assume "\<exists>e. get_ticker fa (symbol lp) = Inl e"
  then show "\<not> should_late_join now_ms lp fa" by (auto simp: should_late_join_def)
next
  assume "\<exists>tk. get_ticker fa (symbol lp) = Inr tk \<and> last tk = None"
  then show "\<not> should_late_join now_ms lp fa" by (auto simp: should_late_join_def)
next
  assume "entry_price lp = 0"
  then show "\<not> should_late_join now_ms lp fa"
    by (auto simp: should_late_join_def split: sum.splits option.splits)
qed

theorem late_join_gates_witness:
  "should_late_join 121000 late_join_position late_join_adapter
   \<and> get_ticker late_join_adapter (symbol late_join_position)
        = Inr \<lparr>last = Some 30000, markPrice = None\<rparr>
   \<and> entry_price late_join_position = 30000
   \<and> \<bar>30000 - entry_price late_join_position\<bar> / entry_price late_join_position \<le> (0.0075 :: real)
   \<and> timestamp_ms late_join_position = Some 1000
   \<and> (121000 - real_of_int 1000) / 1000 \<le> (30 * 60 :: real)"
proof -
  have j: "should_late_join 121000 late_join_position late_join_adapter"
    by (simp add: late_join_position_def late_join_adapter_def fixture_defs should_late_join_def LATE_JOIN_MAX_PRICE_CHANGE_PERCENT_def
        LATE_JOIN_MAX_AGE_MINUTES_def Let_def)
  have tk: "get_ticker late_join_adapter (symbol late_join_position)
        = Inr \<lparr>last = Some 30000, markPrice = None\<rparr>"
    by (simp add: late_join_position_def late_join_adapter_def fixture_defs)
  have ts: "timestamp_ms late_join_position = Some 1000"
    and e: "entry_price late_join_position = 30000"
    by (simp_all add: late_join_position_def fixture_defs)
  from late_join_gates[of 121000 late_join_position late_join_adapter] j
  obtain tk' p where a: "get_ticker late_join_adapter (symbol late_join_position) = Inr tk'"
    and b: "last tk' = Some p"
    and c: "\<bar>p - entry_price late_join_position\<bar> / entry_price late_join_position \<le> 0.0075"
    and d: "\<forall>ts. timestamp_ms late_join_position = Some ts \<and> ts \<noteq> 0 \<longrightarrow>
               (121000 - real_of_int ts) / 1000 \<le> 30 * 60"
    by blast
  from a tk b have "p = 30000" by auto
  with c have c': "\<bar>30000 - entry_price late_join_position\<bar> / entry_price late_join_position
                     \<le> (0.0075 :: real)" by simp
  from d ts have d': "(121000 - real_of_int 1000) / 1000 \<le> (30 * 60 :: real)" by simp
  from j tk e c' ts d' show ?thesis by (intro conjI)
qed

text \<open>The claim as stated asks for a position younger than 30 minutes; a position that is
  exactly 30 minutes old is admitted.\<close>

theorem late_join_age_counterexample:
  "should_late_join 1801000 late_join_position late_join_adapter
   \<and> timestamp_ms late_join_position = Some 1000
   \<and> (1801000 - real_of_int 1000) / 1000 = 30 * 60
   \<and> \<not> (1801000 - real_of_int 1000) / 1000 < (30 * 60 :: real)"
  by (simp add: late_eval) (simp add: late_join_position_def fixture_defs)

section \<open>Properties of the symbol canonicalization\<close>

lemmas symbol_defs =
  format_symbol_for_ccxt_def strip_def rstrip_dash_def split_colon_head_def upper_def
  upper_char_def is_space_def endswith_def quote_currencies_def Let_def

text \<open>The four examples of the docstring.\<close>

lemma format_symbol_examples:
  "format_symbol_for_ccxt ''BTCUSDT'' = ''BTC/USDT''
   \<and> format_symbol_for_ccxt ''ETHUSDT:USDT'' = ''ETH/USDT''
   \<and> format_symbol_for_ccxt ''HFT-'' = ''HFT/USDT''
   \<and> format_symbol_for_ccxt ''FRAG'' = ''FRAG/USDT''"
  by (simp add: symbol_defs)

text \<open>
  C9 (idempotence of the canonicalization), evaluated where it fails. Line 34 strips
  whitespace before line 38 strips the trailing dashes, so whitespace in front of a
  trailing dash stays at the end of a symbol that has a slash; a second application
  strips it.
\<close>

theorem canonicalization_not_idempotent:
  "format_symbol_for_ccxt ''BTC/USDT -'' = ''BTC/USDT ''
   \<and> format_symbol_for_ccxt (format_symbol_for_ccxt ''BTC/USDT -'') = ''BTC/USDT''"
  by (simp add: symbol_defs)

text \<open>Apart from that case the canonicalization is idempotent.\<close>

lemma upper_char_cases:
  "(97 \<le> (of_char c :: nat) \<and> (of_char c :: nat) \<le> 122
      \<and> (of_char (upper_char c) :: nat) = of_char c - 32)
   \<or> (\<not> (97 \<le> (of_char c :: nat) \<and> (of_char c :: nat) \<le> 122) \<and> upper_char c = c)"
  by (auto simp: upper_char_def Let_def)

lemma upper_char_fixed:
  "\<not> (97 \<le> (of_char d :: nat) \<and> (of_char d :: nat) \<le> 122) \<Longrightarrow> upper_char d = d"
  by (auto simp: upper_char_def Let_def)

lemma upper_char_inv:
  assumes "upper_char c = d" and "\<not> (65 \<le> (of_char d :: nat) \<and> (of_char d :: nat) \<le> 90)"
  shows "c = d"
proof -
  from upper_char_cases[of c] show ?thesis
  proof
    assume "97 \<le> (of_char c :: nat) \<and> (of_char c :: nat) \<le> 122
      \<and> (of_char (upper_char c) :: nat) = of_char c - 32"
    with assms(1) have "65 \<le> (of_char d :: nat) \<and> (of_char d :: nat) \<le> 90" by auto
    with assms(2) show ?thesis by simp
  next
    assume "\<not> (97 \<le> (of_char c :: nat) \<and> (of_char c :: nat) \<le> 122) \<and> upper_char c = c"
    with assms(1) show ?thesis by simp
  qed
qed

lemma upper_char_idem: "upper_char (upper_char c) = upper_char c"
proof -
  from upper_char_cases[of c] show ?thesis
  proof
    assume "97 \<le> (of_char c :: nat) \<and> (of_char c :: nat) \<le> 122
      \<and> (of_char (upper_char c) :: nat) = of_char c - 32"
    then have "\<not> (97 \<le> (of_char (upper_char c) :: nat) \<and> (of_char (upper_char c) :: nat) \<le> 122)"
      by auto
    then show ?thesis by (rule upper_char_fixed)
  next
    assume "\<not> (97 \<le> (of_char c :: nat) \<and> (of_char c :: nat) \<le> 122) \<and> upper_char c = c"
    then show ?thesis by simp
  qed
qed

lemma upper_char_eq_slash: "upper_char c = CHR ''/'' \<longleftrightarrow> c = CHR ''/''"
  using upper_char_inv[of c "CHR ''/''"] upper_char_fixed[of "CHR ''/''"] by auto

lemma upper_char_eq_colon: "upper_char c = CHR '':'' \<longleftrightarrow> c = CHR '':''"
  using upper_char_inv[of c "CHR '':''"] upper_char_fixed[of "CHR '':''"] by auto

lemma upper_char_eq_dash: "upper_char c = CHR ''-'' \<longleftrightarrow> c = CHR ''-''"
  using upper_char_inv[of c "CHR ''-''"] upper_char_fixed[of "CHR ''-''"] by auto

lemma is_space_upper_char: "is_space (upper_char c) = is_space c"
proof -
  from upper_char_cases[of c] show ?thesis
  proof
    assume "97 \<le> (of_char c :: nat) \<and> (of_char c :: nat) \<le> 122
      \<and> (of_char (upper_char c) :: nat) = of_char c - 32"
    then show ?thesis by (auto simp: is_space_def Let_def)
  next
    assume "\<not> (97 \<le> (of_char c :: nat) \<and> (of_char c :: nat) \<le> 122) \<and> upper_char c = c"
    then show ?thesis by simp
  qed
qed

lemma upper_idem: "upper (upper s) = upper s"
  by (simp add: upper_def upper_char_idem)

lemma upper_append: "upper (s @ t) = upper s @ upper t"
  by (simp add: upper_def)

lemma upper_char_eq_slash': "CHR ''/'' = upper_char c \<longleftrightarrow> c = CHR ''/''"
  using upper_char_eq_slash[of c] by auto

lemma upper_char_eq_colon': "CHR '':'' = upper_char c \<longleftrightarrow> c = CHR '':''"
  using upper_char_eq_colon[of c] by auto

lemma slash_in_upper: "CHR ''/'' \<in> set (upper s) \<longleftrightarrow> CHR ''/'' \<in> set s"
  by (auto simp: upper_def upper_char_eq_slash' image_iff)

lemma colon_in_upper: "CHR '':'' \<in> set (upper s) \<longleftrightarrow> CHR '':'' \<in> set s"
  by (auto simp: upper_def upper_char_eq_colon' image_iff)

lemma rdrop_prefix: "\<exists>k. rev (dropWhile P (rev s)) = take k s"
proof -
  have "rev (dropWhile P (rev s)) = rev (drop (length (takeWhile P (rev s))) (rev s))"
    by (simp add: dropWhile_eq_drop[symmetric])
  also have "\<dots> = take (length s - length (takeWhile P (rev s))) s"
    by (simp add: rev_drop)
  finally show ?thesis by blast
qed

lemma rdrop_id: "s = [] \<or> \<not> P (List.last s) \<Longrightarrow> rev (dropWhile P (rev s)) = s"
proof -
  assume "s = [] \<or> \<not> P (List.last s)"
  then have "rev s = [] \<or> \<not> P (hd (rev s))" by (auto simp: hd_rev)
  then have "dropWhile P (rev s) = rev s" by (simp add: dropWhile_eq_self_iff)
  then show ?thesis by simp
qed

lemma rdrop_last:
  "rev (dropWhile P (rev s)) \<noteq> [] \<Longrightarrow> \<not> P (List.last (rev (dropWhile P (rev s))))"
  by (simp add: last_rev hd_dropWhile)

lemma rdrop_set: "set (rev (dropWhile P (rev s))) \<subseteq> set s"
  using set_dropWhileD[of _ P "rev s"] by auto

lemma rdrop_hd: "rev (dropWhile P (rev s)) \<noteq> [] \<Longrightarrow> hd (rev (dropWhile P (rev s))) = hd s"
proof -
  assume ne: "rev (dropWhile P (rev s)) \<noteq> []"
  from rdrop_prefix[of P s] obtain k where k: "rev (dropWhile P (rev s)) = take k s" by blast
  with ne have "take k s \<noteq> []" by simp
  then have "hd (take k s) = hd s" by (cases s; cases k) simp_all
  with k show ?thesis by simp
qed

lemma rstrip_dash_prefix: "\<exists>k. rstrip_dash s = take k s"
  unfolding rstrip_dash_def by (rule rdrop_prefix)

lemma rstrip_dash_id: "s = [] \<or> List.last s \<noteq> CHR ''-'' \<Longrightarrow> rstrip_dash s = s"
  unfolding rstrip_dash_def by (rule rdrop_id) simp

lemma rstrip_dash_last: "rstrip_dash s \<noteq> [] \<Longrightarrow> List.last (rstrip_dash s) \<noteq> CHR ''-''"
  unfolding rstrip_dash_def using rdrop_last[of "\<lambda>c. c = CHR ''-''" s] by simp

lemma rstrip_dash_set: "set (rstrip_dash s) \<subseteq> set s"
  unfolding rstrip_dash_def by (rule rdrop_set)

lemma rstrip_dash_hd: "rstrip_dash s \<noteq> [] \<Longrightarrow> hd (rstrip_dash s) = hd s"
  unfolding rstrip_dash_def by (rule rdrop_hd)

lemma strip_id:
  assumes "s \<noteq> []" "\<not> is_space (hd s)" "\<not> is_space (List.last s)"
  shows "strip s = s"
proof -
  from assms have "dropWhile is_space s = s" by (simp add: dropWhile_eq_self_iff)
  then show ?thesis using assms(3) by (simp add: strip_def rdrop_id)
qed

lemma strip_set: "set (strip s) \<subseteq> set s"
proof -
  have "set (strip s) \<subseteq> set (dropWhile is_space s)"
    unfolding strip_def by (rule rdrop_set)
  also have "\<dots> \<subseteq> set s" using set_dropWhileD[of _ is_space s] by auto
  finally show ?thesis .
qed

lemma strip_hd: "strip s \<noteq> [] \<Longrightarrow> \<not> is_space (hd (strip s))"
proof -
  assume ne: "strip s \<noteq> []"
  then have "hd (strip s) = hd (dropWhile is_space s)"
    unfolding strip_def by (rule rdrop_hd)
  moreover have "dropWhile is_space s \<noteq> []"
  proof
    assume a: "dropWhile is_space s = []"
    have "strip s = []" by (simp only: strip_def a rev.simps dropWhile.simps)
    with ne show False by simp
  qed
  ultimately show ?thesis by (simp add: hd_dropWhile)
qed

lemma split_colon_head_no_colon: "CHR '':'' \<notin> set (split_colon_head s)"
  unfolding split_colon_head_def using set_takeWhileD[of "CHR '':''" "\<lambda>c. c \<noteq> CHR '':''" s] by auto

lemma split_colon_head_id: "CHR '':'' \<notin> set s \<Longrightarrow> split_colon_head s = s"
  unfolding split_colon_head_def by auto

text \<open>The symbol after the three cleaning steps of lines 34-38.\<close>

lemma cleaned_props:
  fixes x :: string
  defines "cl \<equiv> rstrip_dash (strip (split_colon_head x))"
  shows "CHR '':'' \<notin> set cl"
    and "cl \<noteq> [] \<Longrightarrow> \<not> is_space (hd cl)"
    and "cl \<noteq> [] \<Longrightarrow> List.last cl \<noteq> CHR ''-''"
    and "set cl \<subseteq> set x"
proof -
  have "set cl \<subseteq> set (split_colon_head x)"
    unfolding cl_def using rstrip_dash_set strip_set by blast
  then show "CHR '':'' \<notin> set cl" using split_colon_head_no_colon by blast
next
  assume ne: "cl \<noteq> []"
  then have "hd cl = hd (strip (split_colon_head x))"
    unfolding cl_def by (rule rstrip_dash_hd)
  moreover have "strip (split_colon_head x) \<noteq> []"
  proof
    assume a: "strip (split_colon_head x) = []"
    have "cl = []" by (simp only: cl_def rstrip_dash_def a rev.simps dropWhile.simps)
    with ne show False by simp
  qed
  ultimately show "\<not> is_space (hd cl)" by (simp add: strip_hd)
next
  assume "cl \<noteq> []"
  then show "List.last cl \<noteq> CHR ''-''" unfolding cl_def by (rule rstrip_dash_last)
next
  have "set cl \<subseteq> set (split_colon_head x)"
    unfolding cl_def using rstrip_dash_set strip_set by blast
  also have "\<dots> \<subseteq> set x"
    unfolding split_colon_head_def using set_takeWhileD[of _ "\<lambda>c. c \<noteq> CHR '':''" x] by auto
  finally show "set cl \<subseteq> set x" .
qed

lemma format_symbol_fixed:
  assumes "y \<noteq> []" "CHR ''/'' \<in> set y" "CHR '':'' \<notin> set y"
    "\<not> is_space (hd y)" "\<not> is_space (List.last y)" "List.last y \<noteq> CHR ''-''" "upper y = y"
  shows "format_symbol_for_ccxt y = y"
proof -
  have 1: "split_colon_head y = y" using assms(3) by (rule split_colon_head_id)
  have 2: "strip y = y" using assms(1,4,5) by (rule strip_id)
  have 3: "rstrip_dash y = y" using assms(6) by (simp add: rstrip_dash_id)
  show ?thesis using assms(1,2,7) by (simp add: format_symbol_for_ccxt_def 1 2 3 Let_def)
qed

lemma quote_props:
  assumes "q \<in> set quote_currencies"
  shows "q \<noteq> [] \<and> CHR '':'' \<notin> set q \<and> List.last q \<noteq> CHR ''-'' \<and> \<not> is_space (List.last q)
         \<and> upper q = q"
  using assms
  by (auto simp: quote_currencies_def upper_def upper_char_def is_space_def Let_def)

lemma try_quotes_SomeD:
  "try_quotes u qs = Some r \<Longrightarrow>
     \<exists>q n. q \<in> set qs \<and> r = rstrip_dash (take n u) @ ''/'' @ q"
proof (induction qs)
  case Nil
  then show ?case by simp
next
  case (Cons q qs)
  then show ?case by (auto split: if_splits)
qed

lemma upper_take: "upper (take n s) = take n (upper s)"
  by (simp add: upper_def take_map)

text \<open>Every non-empty result of the canonicalization has a slash and no colon, begins
  with no whitespace, does not end with a dash and is in upper case.\<close>

lemma base_quote_shape:
  assumes u: "upper u = u" and nc: "CHR '':'' \<notin> set u"
    and hd: "u \<noteq> [] \<Longrightarrow> \<not> is_space (hd u)"
    and b: "b = take k u" and q: "q \<in> set quote_currencies"
  shows "CHR ''/'' \<in> set (b @ ''/'' @ q) \<and> CHR '':'' \<notin> set (b @ ''/'' @ q)
       \<and> \<not> is_space (hd (b @ ''/'' @ q)) \<and> List.last (b @ ''/'' @ q) \<noteq> CHR ''-''
       \<and> \<not> is_space (List.last (b @ ''/'' @ q))
       \<and> upper (b @ ''/'' @ q) = b @ ''/'' @ q"
proof -
  from quote_props[OF q] have qne: "q \<noteq> []" and qc: "CHR '':'' \<notin> set q"
    and ql: "List.last q \<noteq> CHR ''-''" and qs: "\<not> is_space (List.last q)" and qu: "upper q = q"
    by simp_all
  have bset: "set b \<subseteq> set u" unfolding b by (rule set_take_subset)
  have ub: "upper b = b" by (simp add: b upper_take u)
  have us: "upper ''/'' = ''/''" by (simp add: upper_def upper_char_def)
  have h: "\<not> is_space (hd (b @ ''/'' @ q))"
  proof (cases "b = []")
    case True
    then show ?thesis by (simp add: is_space_def)
  next
    case False
    then have "u \<noteq> []" and "hd b = hd u" unfolding b by (cases u; cases k; simp)+
    with hd False show ?thesis by simp
  qed
  have l: "List.last (b @ ''/'' @ q) = List.last q" using qne by simp
  have c1: "CHR ''/'' \<in> set (b @ ''/'' @ q)" by simp
  have c2: "CHR '':'' \<notin> set (b @ ''/'' @ q)" using bset nc qc by auto
  have c3: "upper (b @ ''/'' @ q) = b @ ''/'' @ q"
    by (simp only: upper_append ub us qu)
  from c1 c2 h ql qs c3 show ?thesis by (simp only: l) simp
qed

lemma format_symbol_shape:
  fixes x :: string
  defines "y \<equiv> format_symbol_for_ccxt x"
  shows "y = [] \<or> (CHR ''/'' \<in> set y \<and> CHR '':'' \<notin> set y \<and> \<not> is_space (hd y)
                   \<and> List.last y \<noteq> CHR ''-'' \<and> upper y = y
                   \<and> (is_space (List.last y) \<longrightarrow> (\<exists>c\<in>set x. is_space c)))"
proof (cases "x = []")
  case True
  then show ?thesis by (simp add: y_def format_symbol_for_ccxt_def)
next
  case False
  define cl where "cl = rstrip_dash (strip (split_colon_head x))"
  note cp = cleaned_props[of x, folded cl_def]
  show ?thesis
  proof (cases "CHR ''/'' \<in> set cl")
    case True
    then have y: "y = upper cl" using False
      by (simp add: y_def format_symbol_for_ccxt_def cl_def[symmetric] Let_def)
    from True have ne: "cl \<noteq> []" by auto
    have "hd (upper cl) = upper_char (hd cl)" using ne by (simp add: upper_def hd_map)
    moreover have "List.last (upper cl) = upper_char (List.last cl)"
      using ne by (simp add: upper_def last_map)
    moreover have "List.last cl \<in> set x" using ne cp(4) by auto
    ultimately show ?thesis
      using True cp(1-3) ne
      by (auto simp: y slash_in_upper colon_in_upper upper_idem is_space_upper_char
            upper_char_eq_dash)
  next
    case nslash: False
    define u where "u = upper cl"
    have uu: "upper u = u" by (simp add: u_def upper_idem)
    have unc: "CHR '':'' \<notin> set u" using cp(1) by (simp add: u_def colon_in_upper)
    have uhd: "u \<noteq> [] \<Longrightarrow> \<not> is_space (hd u)"
    proof -
      assume "u \<noteq> []"
      then have ne: "cl \<noteq> []" by (auto simp: u_def upper_def)
      then have "hd u = upper_char (hd cl)" by (simp add: u_def upper_def hd_map)
      with cp(2)[OF ne] show ?thesis by (simp add: is_space_upper_char)
    qed
    have yy: "y = (case try_quotes u quote_currencies of Some r \<Rightarrow> r
                   | None \<Rightarrow> if u \<noteq> [] then u @ ''/USDT'' else [])"
      using False nslash
      by (simp add: y_def format_symbol_for_ccxt_def cl_def[symmetric] u_def[symmetric] Let_def)
    show ?thesis
    proof (cases "try_quotes u quote_currencies")
      case None
      show ?thesis
      proof (cases "u = []")
        case True
        with None yy show ?thesis by simp
      next
        case une: False
        have "''USDT'' \<in> set quote_currencies" by (simp add: quote_currencies_def)
        from base_quote_shape[OF uu unc uhd _ this, of u "length u"] None une yy
        show ?thesis by simp
      qed
    next
      case (Some r)
      from try_quotes_SomeD[OF Some] obtain q n where q: "q \<in> set quote_currencies"
        and r: "r = rstrip_dash (take n u) @ ''/'' @ q" by blast
      from rstrip_dash_prefix[of "take n u"] obtain k where
        "rstrip_dash (take n u) = take k (take n u)" by blast
      then have "rstrip_dash (take n u) = take (min k n) u" by simp
      from base_quote_shape[OF uu unc uhd this q] Some yy r
      show ?thesis by simp
    qed
  qed
qed

text \<open>Canonicalizing twice gives the same as canonicalizing once, unless the first
  result ends with whitespace.\<close>

lemma format_symbol_idempotent_without_whitespace:
  assumes "\<forall>c\<in>set x. \<not> is_space c"
  shows "format_symbol_for_ccxt (format_symbol_for_ccxt x) = format_symbol_for_ccxt x"
proof (cases "format_symbol_for_ccxt x = []")
  case True
  then show ?thesis by (simp add: format_symbol_for_ccxt_def)
next
  case False
  with format_symbol_shape[of x] assms show ?thesis
    by (intro format_symbol_fixed) auto
qed

lemma format_symbol_idempotent_unless_trailing_space:
  assumes "format_symbol_for_ccxt x = [] \<or> \<not> is_space (List.last (format_symbol_for_ccxt x))"
  shows "format_symbol_for_ccxt (format_symbol_for_ccxt x) = format_symbol_for_ccxt x"
proof (cases "format_symbol_for_ccxt x = []")
  case True
  then show ?thesis by (simp add: format_symbol_for_ccxt_def)
next
  case False
  with format_symbol_shape[of x] assms show ?thesis
    by (intro format_symbol_fixed) simp_all
qed

end
